theory Spec2Isabelle
  imports Main
begin


section \<open>JavaScript values\<close>

text \<open>
  The values that reach the cart code: request fields parsed from JSON, route parameters
  and the results of \<^verbatim>\<open>parseInt\<close>. A JS number is modelled by the integer it
  denotes (the safe integers, on which \<^verbatim>\<open>String(n)\<close> is the decimal numeral of
  \<open>n\<close> and SQLite's 64-bit addition is exact) or by \<open>JNaN\<close>; fractional numbers and
  infinities are outside the model. Ids and quantities are integers; a price is only
  tested for being a number and then carried along unchanged, so an integer price stands
  for an amount in the smallest unit. A JS string is modelled by the bytes of its UTF-8
  encoding (a string with an unpaired surrogate has none and is outside the model).
  Objects and arrays occur only as the typed arguments below (a cart item, a list of
  cart items).
\<close>

datatype jsval = JUndefined | JNull | JBool bool | JNum int | JNaN | JStr string

fun typeof :: "jsval \<Rightarrow> string" where
  "typeof JUndefined = ''undefined''"
| "typeof JNull = ''object''"
| "typeof (JBool b) = ''boolean''"
| "typeof (JNum n) = ''number''"
| "typeof JNaN = ''number''"
| "typeof (JStr s) = ''string''"

text \<open>ToBoolean: \<^verbatim>\<open>!x\<close> is \<open>\<not> truthy x\<close>.\<close>

fun truthy :: "jsval \<Rightarrow> bool" where
  "truthy JUndefined = False"
| "truthy JNull = False"
| "truthy (JBool b) = b"
| "truthy (JNum n) = (n \<noteq> 0)"
| "truthy JNaN = False"
| "truthy (JStr s) = (s \<noteq> [])"

text \<open>\<^verbatim>\<open>a || b\<close>\<close>

definition js_or :: "jsval \<Rightarrow> jsval \<Rightarrow> jsval" where
  "js_or a b = (if truthy a then a else b)"

text \<open>
  The white space that \<^verbatim>\<open>trim\<close> and \<^verbatim>\<open>parseInt\<close> skip: the code points of
  WhiteSpace and LineTerminator, by the length of their UTF-8 encoding. One byte: TAB,
  LF, VT, FF, CR, SP. Two bytes: U+00A0 (C2 A0). Three bytes: U+1680 (E1 9A 80),
  U+2000 to U+200A (E2 80 80 to E2 80 8A), U+2028, U+2029 and U+202F (E2 80 A8, A9, AF),
  U+205F (E2 81 9F), U+3000 (E3 80 80) and U+FEFF (EF BB BF).
\<close>

definition space1 :: "char \<Rightarrow> bool" where
  "space1 a = (a \<in> set [CHR 0x09, CHR 0x0A, CHR 0x0B, CHR 0x0C, CHR 0x0D, CHR 0x20])"

definition space2 :: "char \<Rightarrow> char \<Rightarrow> bool" where
  "space2 a b = (a = CHR 0xC2 \<and> b = CHR 0xA0)"

definition space3 :: "char \<Rightarrow> char \<Rightarrow> char \<Rightarrow> bool" where
  "space3 a b c =
     ((a = CHR 0xE1 \<and> b = CHR 0x9A \<and> c = CHR 0x80)
      \<or> (a = CHR 0xE2 \<and> b = CHR 0x80
          \<and> c \<in> set [CHR 0x80, CHR 0x81, CHR 0x82, CHR 0x83, CHR 0x84, CHR 0x85, CHR 0x86,
                       CHR 0x87, CHR 0x88, CHR 0x89, CHR 0x8A, CHR 0xA8, CHR 0xA9, CHR 0xAF])
      \<or> (a = CHR 0xE2 \<and> b = CHR 0x81 \<and> c = CHR 0x9F)
      \<or> (a = CHR 0xE3 \<and> b = CHR 0x80 \<and> c = CHR 0x80)
      \<or> (a = CHR 0xEF \<and> b = CHR 0xBB \<and> c = CHR 0xBF))"

text \<open>Drop the white space a string starts with.\<close>

fun skip_space :: "string \<Rightarrow> string" where
  "skip_space (a # b # c # s) =
     (if space1 a then skip_space (b # c # s)
      else if space2 a b then skip_space (c # s)
      else if space3 a b c then skip_space s
      else a # b # c # s)"
| "skip_space [a, b] =
     (if space1 a then skip_space [b] else if space2 a b then [] else [a, b])"
| "skip_space [a] = (if space1 a then [] else [a])"
| "skip_space [] = []"

text \<open>The same from the other end, on the reversed string: the last byte comes
  first.\<close>

fun skip_space_back :: "string \<Rightarrow> string" where
  "skip_space_back (c # b # a # s) =
     (if space1 c then skip_space_back (b # a # s)
      else if space2 b c then skip_space_back (a # s)
      else if space3 a b c then skip_space_back s
      else c # b # a # s)"
| "skip_space_back [c, b] =
     (if space1 c then skip_space_back [b] else if space2 b c then [] else [c, b])"
| "skip_space_back [c] = (if space1 c then [] else [c])"
| "skip_space_back [] = []"

text \<open>\<^verbatim>\<open>String.prototype.trim\<close>\<close>

definition trim :: "string \<Rightarrow> string" where
  "trim s = rev (skip_space_back (rev (skip_space s)))"

definition digit_of :: "char \<Rightarrow> int option" where
  "digit_of = map_of [(CHR ''0'', 0), (CHR ''1'', 1), (CHR ''2'', 2), (CHR ''3'', 3), (CHR ''4'', 4),
     (CHR ''5'', 5), (CHR ''6'', 6), (CHR ''7'', 7), (CHR ''8'', 8), (CHR ''9'', 9)]"

definition is_digit :: "char \<Rightarrow> bool" where
  "is_digit c = (digit_of c \<noteq> None)"

text \<open>The value of a run of decimal digits, most significant first.\<close>

fun digits_value :: "int \<Rightarrow> string \<Rightarrow> int" where
  "digits_value acc [] = acc"
| "digits_value acc (c # cs) =
     (case digit_of c of None \<Rightarrow> acc | Some d \<Rightarrow> digits_value (10 * acc + d) cs)"

text \<open>
  \<^verbatim>\<open>parseInt(s, 10)\<close> on a string: skip leading white space, read an optional sign,
  then the longest run of decimal digits; anything after it is ignored, and no digit
  at all gives NaN. The value is the exact one: a numeral beyond the safe integers, which
  JavaScript rounds to a double, is outside the model.
\<close>

definition parse_int_string :: "string \<Rightarrow> jsval" where
  "parse_int_string s =
     (let s1 = skip_space s;
          neg = (s1 \<noteq> [] \<and> hd s1 = CHR ''-'');
          s2 = (if s1 \<noteq> [] \<and> (hd s1 = CHR ''-'' \<or> hd s1 = CHR ''+'') then tl s1 else s1);
          ds = takeWhile is_digit s2
      in if ds = [] then JNaN
         else JNum (if neg then - digits_value 0 ds else digits_value 0 ds))"

text \<open>
  \<^verbatim>\<open>parseInt(x, 10)\<close>: the argument is first turned into a string. The string of a
  number of the model is its numeral; the strings of \<^verbatim>\<open>undefined\<close>,
  \<^verbatim>\<open>null\<close>, a boolean and NaN start with a letter.
\<close>

fun parseInt :: "jsval \<Rightarrow> jsval" where
  "parseInt (JStr s) = parse_int_string s"
| "parseInt (JNum n) = JNum n"
| "parseInt JUndefined = JNaN"
| "parseInt JNull = JNaN"
| "parseInt (JBool b) = JNaN"
| "parseInt JNaN = JNaN"

text \<open>A signed decimal numeral that fills the whole string.\<close>

definition signed_numeral :: "string \<Rightarrow> int option" where
  "signed_numeral t =
     (let neg = (t \<noteq> [] \<and> hd t = CHR ''-'');
          u = (if t \<noteq> [] \<and> (hd t = CHR ''-'' \<or> hd t = CHR ''+'') then tl t else t)
      in if u \<noteq> [] \<and> list_all is_digit u
         then Some (if neg then - digits_value 0 u else digits_value 0 u)
         else None)"

text \<open>
  ToNumber, as \<^verbatim>\<open>isNaN\<close> and the comparisons apply it. On a string: white space is
  trimmed, the empty string is 0, a signed decimal numeral is its value and everything
  else is NaN (the integer numerals only, as for the numbers of the model).
\<close>

definition string_to_number :: "string \<Rightarrow> jsval" where
  "string_to_number s =
     (if trim s = [] then JNum 0
      else case signed_numeral (trim s) of Some n \<Rightarrow> JNum n | None \<Rightarrow> JNaN)"

fun to_number :: "jsval \<Rightarrow> jsval" where
  "to_number JUndefined = JNaN"
| "to_number JNull = JNum 0"
| "to_number (JBool b) = JNum (if b then 1 else 0)"
| "to_number (JNum n) = JNum n"
| "to_number JNaN = JNaN"
| "to_number (JStr s) = string_to_number s"

definition isNaN :: "jsval \<Rightarrow> bool" where
  "isNaN x = (to_number x = JNaN)"

text \<open>\<^verbatim>\<open>x <= k\<close>, \<^verbatim>\<open>x < k\<close> and \<^verbatim>\<open>x > k\<close> against a number literal: false on NaN.\<close>

definition js_le :: "jsval \<Rightarrow> int \<Rightarrow> bool" where
  "js_le x k = (case to_number x of JNum n \<Rightarrow> n \<le> k | _ \<Rightarrow> False)"

definition js_lt :: "jsval \<Rightarrow> int \<Rightarrow> bool" where
  "js_lt x k = (case to_number x of JNum n \<Rightarrow> n < k | _ \<Rightarrow> False)"

definition js_gt :: "jsval \<Rightarrow> int \<Rightarrow> bool" where
  "js_gt x k = (case to_number x of JNum n \<Rightarrow> n > k | _ \<Rightarrow> False)"

text \<open>
  \<^verbatim>\<open>x?.trim() || ""\<close>: the empty string when \<open>x\<close> is \<^verbatim>\<open>undefined\<close> or
  \<^verbatim>\<open>null\<close>, the trimmed string when \<open>x\<close> is a string; a number or a boolean has no
  \<^verbatim>\<open>trim\<close> method and the call throws a TypeError (\<open>None\<close>).
\<close>

fun trim_or_empty :: "jsval \<Rightarrow> string option" where
  "trim_or_empty JUndefined = Some []"
| "trim_or_empty JNull = Some []"
| "trim_or_empty (JStr s) = Some (trim s)"
| "trim_or_empty (JBool b) = None"
| "trim_or_empty (JNum n) = None"
| "trim_or_empty JNaN = None"


section \<open>The carts table\<close>

text \<open>
  A value as SQLite stores it: NULL, an integer, a real or text. The only reals that
  arise are decimal numerals that are not integers of 64 bits: \<open>SReal m k\<close> is the value
  \<open>m / 10 ^ k\<close>, with \<open>m\<close> not divisible by 10 unless \<open>k = 0\<close>. The driver binds
  \<^verbatim>\<open>undefined\<close>, \<^verbatim>\<open>null\<close> and NaN as NULL, a boolean as the integer 0 or 1, a
  number as itself and a string as text.
\<close>

datatype sqlval = SNull | SInt int | SReal int nat | SText string

fun sql_bind :: "jsval \<Rightarrow> sqlval" where
  "sql_bind JUndefined = SNull"
| "sql_bind JNull = SNull"
| "sql_bind (JBool b) = SInt (if b then 1 else 0)"
| "sql_bind (JNum n) = SInt n"
| "sql_bind JNaN = SNull"
| "sql_bind (JStr s) = SText s"

text \<open>SQLite's own white space is the six one-byte characters of \<open>space1\<close>.\<close>

definition sql_trim :: "string \<Rightarrow> string" where
  "sql_trim s = rev (dropWhile space1 (rev (dropWhile space1 s)))"

text \<open>Cancel the factors 10 that a mantissa \<open>m\<close> shares with the denominator \<open>10 ^ k\<close>.\<close>

fun reduce10 :: "int \<Rightarrow> nat \<Rightarrow> int \<times> nat" where
  "reduce10 m 0 = (m, 0)"
| "reduce10 m (Suc k) = (if m mod 10 = 0 then reduce10 (m div 10) k else (m, Suc k))"

text \<open>
  The stored form of the decimal \<open>m * 10 ^ e\<close>. A numeral written as a plain integer
  becomes an integer when it fits 64 bits; one written with a point or an exponent
  becomes an integer when its value is an integer strictly inside that range; anything
  else is a real.
\<close>

definition decimal :: "int \<Rightarrow> int \<Rightarrow> bool \<Rightarrow> sqlval" where
  "decimal m e plain =
     (let (v, k) = (if 0 \<le> e then (m * 10 ^ nat e, 0) else reduce10 m (nat (- e)))
      in if k = 0 \<and> (if plain then - (2 ^ 63) \<le> v \<and> v \<le> 2 ^ 63 - 1
                               else - (2 ^ 63) < v \<and> v < 2 ^ 63 - 1)
         then SInt v else SReal v k)"

text \<open>
  Text that SQLite reads as a number (\<^verbatim>\<open>sqlite3AtoF\<close>): white space, an optional
  sign, digits with an optional point, an optional exponent \<^verbatim>\<open>e\<close> or \<^verbatim>\<open>E\<close> with
  optional sign and at least one digit, white space, and nothing else; at least one
  digit before the exponent. The value is taken exactly, where SQLite works with the
  nearest double: numerals with more significant digits than a double holds are outside
  the model.
\<close>

definition sql_number :: "string \<Rightarrow> sqlval option" where
  "sql_number s =
     (let t = sql_trim s;
          neg = (t \<noteq> [] \<and> hd t = CHR ''-'');
          u = (if t \<noteq> [] \<and> (hd t = CHR ''-'' \<or> hd t = CHR ''+'') then tl t else t);
          ip = takeWhile is_digit u;
          r1 = dropWhile is_digit u;
          point = (r1 \<noteq> [] \<and> hd r1 = CHR ''.'');
          fp = (if point then takeWhile is_digit (tl r1) else []);
          r2 = (if point then dropWhile is_digit (tl r1) else r1);
          expo = (r2 \<noteq> [] \<and> (hd r2 = CHR ''e'' \<or> hd r2 = CHR ''E''));
          r3 = (if expo then tl r2 else r2);
          eneg = (expo \<and> r3 \<noteq> [] \<and> hd r3 = CHR ''-'');
          r4 = (if expo \<and> r3 \<noteq> [] \<and> (hd r3 = CHR ''-'' \<or> hd r3 = CHR ''+'') then tl r3 else r3);
          ed = (if expo then takeWhile is_digit r4 else []);
          r5 = (if expo then dropWhile is_digit r4 else r4);
          m = digits_value 0 (ip @ fp);
          e = (if eneg then - digits_value 0 ed else digits_value 0 ed) - int (length fp)
      in if ip @ fp = [] \<or> r5 \<noteq> [] \<or> (expo \<and> ed = []) then None
         else Some (decimal (if neg then - m else m) e (\<not> point \<and> \<not> expo)))"

text \<open>
  The INTEGER affinity of the \<^verbatim>\<open>product_id\<close> column: text that reads as a number is
  stored as that number, other text stays text; NULL and integers are stored as they
  are.
\<close>

fun integer_affinity :: "sqlval \<Rightarrow> sqlval" where
  "integer_affinity (SText s) = (case sql_number s of Some v \<Rightarrow> v | None \<Rightarrow> SText s)"
| "integer_affinity v = v"

text \<open>
  One row of \<^verbatim>\<open>carts\<close>. The columns \<^verbatim>\<open>id\<close> (AUTOINCREMENT) and
  \<^verbatim>\<open>created_at\<close> are read by no cart function and are left out. The table is the
  list of its rows in insertion order; \<^verbatim>\<open>UNIQUE(user_id, product_id)\<close> is checked by
  the statements that insert.
\<close>

record cart_row =
  user_id :: int
  product_id :: sqlval
  email :: string
  title :: string
  price :: int
  image :: string
  quantity :: int

type_synonym carts = "cart_row list"

text \<open>The values bound to the seven placeholders of an INSERT; NULL is possible for
  the product (\<^verbatim>\<open>item.id\<close> is bound as it comes) and for the price (NaN).\<close>

record bound_row =
  b_user :: int
  b_product :: sqlval
  b_email :: string
  b_title :: string
  b_price :: "int option"
  b_image :: string
  b_quantity :: int

definition same_line :: "int \<Rightarrow> sqlval \<Rightarrow> cart_row \<Rightarrow> bool" where
  "same_line u p r = (user_id r = u \<and> product_id r = p)"

definition new_row :: "bound_row \<Rightarrow> int \<Rightarrow> cart_row" where
  "new_row b pr = \<lparr>user_id = b_user b, product_id = integer_affinity (b_product b),
     email = b_email b, title = b_title b, price = pr, image = b_image b,
     quantity = b_quantity b\<rparr>"

text \<open>\<^verbatim>\<open>INSERT INTO carts (...) VALUES (?, ?, ?, ?, ?, ?, ?)\<close>: the statement fails on a NULL
  in a NOT NULL column and on a row that repeats a (user_id, product_id) pair.\<close>

definition sql_insert :: "bound_row \<Rightarrow> carts \<Rightarrow> string + carts" where
  "sql_insert b t =
     (if integer_affinity (b_product b) = SNull
      then Inl ''SQLITE_CONSTRAINT: NOT NULL constraint failed: carts.product_id''
      else case b_price b of
        None \<Rightarrow> Inl ''SQLITE_CONSTRAINT: NOT NULL constraint failed: carts.price''
      | Some pr \<Rightarrow>
          if list_ex (same_line (b_user b) (integer_affinity (b_product b))) t
          then Inl ''SQLITE_CONSTRAINT: UNIQUE constraint failed: carts.user_id, carts.product_id''
          else Inr (t @ [new_row b pr]))"

text \<open>The same INSERT with \<^verbatim>\<open>ON CONFLICT(user_id, product_id) DO UPDATE SET
  quantity = quantity + excluded.quantity, title = excluded.title, price = excluded.price,
  image = excluded.image\<close>.\<close>

definition sql_upsert :: "bound_row \<Rightarrow> carts \<Rightarrow> string + carts" where
  "sql_upsert b t =
     (if integer_affinity (b_product b) = SNull
      then Inl ''SQLITE_CONSTRAINT: NOT NULL constraint failed: carts.product_id''
      else case b_price b of
        None \<Rightarrow> Inl ''SQLITE_CONSTRAINT: NOT NULL constraint failed: carts.price''
      | Some pr \<Rightarrow>
          if list_ex (same_line (b_user b) (integer_affinity (b_product b))) t
          then Inr (map (\<lambda>r. if same_line (b_user b) (integer_affinity (b_product b)) r
                             then r\<lparr>quantity := quantity r + b_quantity b, title := b_title b,
                                    price := pr, image := b_image b\<rparr>
                             else r) t)
          else Inr (t @ [new_row b pr]))"

text \<open>\<^verbatim>\<open>UPDATE carts SET quantity = ? WHERE user_id = ? AND product_id = ?\<close>\<close>

definition sql_update_quantity :: "int \<Rightarrow> int \<Rightarrow> int \<Rightarrow> carts \<Rightarrow> carts" where
  "sql_update_quantity q u p t =
     map (\<lambda>r. if same_line u (SInt p) r then r\<lparr>quantity := q\<rparr> else r) t"

text \<open>\<^verbatim>\<open>DELETE FROM carts WHERE user_id = ? AND product_id = ?\<close>\<close>

definition sql_delete_line :: "int \<Rightarrow> int \<Rightarrow> carts \<Rightarrow> carts" where
  "sql_delete_line u p t = filter (\<lambda>r. \<not> same_line u (SInt p) r) t"

text \<open>\<^verbatim>\<open>DELETE FROM carts WHERE user_id = ?\<close>\<close>

definition sql_delete_user :: "int \<Rightarrow> carts \<Rightarrow> carts" where
  "sql_delete_user u t = filter (\<lambda>r. user_id r \<noteq> u) t"

text \<open>\<^verbatim>\<open>this.changes\<close> of the last two statements and of the UPDATE: the rows matched.\<close>

definition changes_line :: "int \<Rightarrow> int \<Rightarrow> carts \<Rightarrow> nat" where
  "changes_line u p t = length (filter (same_line u (SInt p)) t)"

definition changes_user :: "int \<Rightarrow> carts \<Rightarrow> nat" where
  "changes_user u t = length (filter (\<lambda>r. user_id r = u) t)"

subsection \<open>The shared connection\<close>

text \<open>
  All handlers use the one connection \<^verbatim>\<open>db\<close>. It holds the committed table and,
  between BEGIN TRANSACTION and COMMIT or ROLLBACK, the working copy that every statement
  on the connection then reads and writes.
\<close>

record conn =
  committed :: carts
  pending :: "carts option"

definition view :: "conn \<Rightarrow> carts" where
  "view c = (case pending c of None \<Rightarrow> committed c | Some t \<Rightarrow> t)"

definition put_view :: "carts \<Rightarrow> conn \<Rightarrow> conn" where
  "put_view t c = (case pending c of None \<Rightarrow> c\<lparr>committed := t\<rparr> | Some w \<Rightarrow> c\<lparr>pending := Some t\<rparr>)"

definition sql_begin :: "conn \<Rightarrow> string option \<times> conn" where
  "sql_begin c =
     (case pending c of
        None \<Rightarrow> (None, c\<lparr>pending := Some (committed c)\<rparr>)
      | Some w \<Rightarrow> (Some ''SQLITE_ERROR: cannot start a transaction within a transaction'', c))"

definition sql_commit :: "conn \<Rightarrow> string option \<times> conn" where
  "sql_commit c =
     (case pending c of
        None \<Rightarrow> (Some ''SQLITE_ERROR: cannot commit - no transaction is active'', c)
      | Some w \<Rightarrow> (None, \<lparr>committed = w, pending = None\<rparr>))"

text \<open>ROLLBACK drops the working copy; the code ignores whether it reports an error.\<close>

definition sql_rollback :: "conn \<Rightarrow> conn" where
  "sql_rollback c = c\<lparr>pending := None\<rparr>"

definition empty_db :: conn where
  "empty_db = \<lparr>committed = [], pending = None\<rparr>"

section \<open>The cart functions of db.js\<close>

text \<open>
  A function of db.js ends by calling its callback once: with a value (\<open>Ok\<close>) or with
  an \<^verbatim>\<open>Error\<close> (\<open>Err\<close>, carrying the message). \<open>Uncaught\<close> is a TypeError thrown
  while the arguments of a statement are computed, with its message in V8's wording; the
  callback is then never called.
  In \<^verbatim>\<open>addOrUpdateCartItem\<close> the exception reaches the caller before any statement
  has run. In \<^verbatim>\<open>saveCart\<close> it is thrown inside the callback of the DELETE, where
  nothing catches it (Node then ends the process unless a handler is installed): the
  model returns the connection as the code left it, with the transaction still open.
  Failures of the storage engine other than constraint violations (I/O errors, a locked
  file) are not modelled.
\<close>

datatype 'a outcome = Ok 'a | Err string | Uncaught string

text \<open>
  Every cart function starts with
  \<^verbatim>\<open>const id = typeof userId === "string" ? parseInt(userId, 10) : userId;
  if (!id || isNaN(id) || id <= 0) return callback(new Error(...));\<close>
  and does the same for a product id and a quantity. \<open>positive_arg\<close> is \<open>None\<close> when the
  test rejects, and otherwise the integer that is bound to the statement for \<open>id\<close>.
\<close>

definition positive_arg :: "jsval \<Rightarrow> int option" where
  "positive_arg v =
     (let x = (if typeof v = ''string'' then parseInt v else v)
      in if \<not> truthy x \<or> isNaN x \<or> js_le x 0 then None
         else case sql_bind x of SInt n \<Rightarrow> Some n | _ \<Rightarrow> None)"

text \<open>\<^verbatim>\<open>if (!email || typeof email !== "string") return callback(new Error(...))\<close>:
  \<open>None\<close> when the test rejects, otherwise the string.\<close>

definition checked_email :: "jsval \<Rightarrow> string option" where
  "checked_email e =
     (if \<not> truthy e \<or> typeof e \<noteq> ''string'' then None
      else case e of JStr s \<Rightarrow> Some s | _ \<Rightarrow> None)"

text \<open>The object passed as a cart item, and each element of \<^verbatim>\<open>cartItems\<close>; a
  property that is absent reads as \<^verbatim>\<open>undefined\<close>.\<close>

record cart_item =
  item_id :: jsval
  item_title :: jsval
  item_price :: jsval
  item_image :: jsval
  item_quantity :: jsval

text \<open>\<^verbatim>\<open>typeof item.price === "number" ? item.price : 0\<close>, as bound: NaN is a number
  and is bound as NULL.\<close>

definition coerce_price :: "jsval \<Rightarrow> int option" where
  "coerce_price p =
     (if typeof p = ''number'' then (case p of JNum n \<Rightarrow> Some n | _ \<Rightarrow> None) else Some 0)"

text \<open>\<^verbatim>\<open>typeof item.quantity === "number" && item.quantity > 0 ? item.quantity : 1\<close>\<close>

definition coerce_quantity :: "jsval \<Rightarrow> int" where
  "coerce_quantity q =
     (if typeof q = ''number'' \<and> js_gt q 0 then (case q of JNum n \<Rightarrow> n | _ \<Rightarrow> 1) else 1)"

text \<open>A row as \<^verbatim>\<open>getCartByUserId\<close> selects it:
  \<^verbatim>\<open>product_id as id, email, title, price, image, quantity\<close>.\<close>

record cart_line =
  line_id :: sqlval
  line_email :: string
  line_title :: string
  line_price :: int
  line_image :: string
  line_quantity :: int

definition line_of :: "cart_row \<Rightarrow> cart_line" where
  "line_of r = \<lparr>line_id = product_id r, line_email = email r, line_title = title r,
     line_price = price r, line_image = image r, line_quantity = quantity r\<rparr>"

definition getCartByUserId :: "conn \<Rightarrow> jsval \<Rightarrow> cart_line list outcome" where
  "getCartByUserId c userId =
     (case positive_arg userId of
        None \<Rightarrow> Err ''Valid user ID is required''
      | Some uid \<Rightarrow> Ok (map line_of (filter (\<lambda>r. user_id r = uid) (view c))))"

text \<open>
  The loop of \<^verbatim>\<open>saveCart\<close> over \<^verbatim>\<open>cartItems\<close>. The callback that sets
  \<^verbatim>\<open>hasError\<close> runs only after the loop has queued every statement, so the test
  \<^verbatim>\<open>if (hasError) break\<close> never fires: every element is submitted, a refused INSERT
  leaves the table as it was and sets the flag that \<^verbatim>\<open>finalize\<close> reads. An element
  whose title or image makes \<^verbatim>\<open>trim\<close> throw ends the loop with the statements queued
  so far.
\<close>

datatype loop_end = Finished bool carts | Threw string carts

fun insert_items :: "int \<Rightarrow> string \<Rightarrow> cart_item list \<Rightarrow> bool \<Rightarrow> carts \<Rightarrow> loop_end" where
  "insert_items uid em [] hasError t = Finished hasError t"
| "insert_items uid em (item # rest) hasError t =
     (case trim_or_empty (item_title item) of
        None \<Rightarrow> Threw ''item.title?.trim is not a function'' t
      | Some ti \<Rightarrow>
         (case trim_or_empty (item_image item) of
            None \<Rightarrow> Threw ''item.image?.trim is not a function'' t
          | Some im \<Rightarrow>
             (case sql_insert \<lparr>b_user = uid, b_product = sql_bind (item_id item),
                     b_email = em, b_title = ti, b_price = coerce_price (item_price item),
                     b_image = im, b_quantity = coerce_quantity (item_quantity item)\<rparr> t of
                Inl insertErr \<Rightarrow> insert_items uid em rest True t
              | Inr t' \<Rightarrow> insert_items uid em rest hasError t')))"

text \<open>\<^verbatim>\<open>saveCart(userId, email, cartItems, callback)\<close>; \<open>cartItems\<close> is \<open>None\<close> for a
  value that is not an array.\<close>

definition saveCart ::
  "conn \<Rightarrow> jsval \<Rightarrow> jsval \<Rightarrow> cart_item list option \<Rightarrow> unit outcome \<times> conn" where
  "saveCart c userId mail cartItems =
     (case positive_arg userId of
        None \<Rightarrow> (Err ''Valid user ID is required'', c)
      | Some uid \<Rightarrow>
     (case checked_email mail of
        None \<Rightarrow> (Err ''Valid email is required'', c)
      | Some em \<Rightarrow>
     (case cartItems of
        None \<Rightarrow> (Err ''cartItems must be an array'', c)
      | Some items \<Rightarrow>
     (case sql_begin c of
        (Some beginErr, c1) \<Rightarrow> (Err beginErr, sql_rollback c1)
      | (None, c1) \<Rightarrow>
          let c2 = put_view (sql_delete_user uid (view c1)) c1 in
          (case insert_items uid (trim em) items False (view c2) of
             Threw msg t \<Rightarrow> (Uncaught msg, put_view t c2)
           | Finished hasError t \<Rightarrow>
               let c3 = put_view t c2 in
               if hasError then (Err ''Insert error'', sql_rollback c3)
               else (case sql_commit c3 of
                       (Some commitErr, c4) \<Rightarrow> (Err commitErr, sql_rollback c4)
                     | (None, c4) \<Rightarrow> (Ok (), c4)))))))"

text \<open>\<^verbatim>\<open>addOrUpdateCartItem(userId, email, item, callback)\<close>. The item is an object
  (the route builds it as a literal), so of \<^verbatim>\<open>!item || typeof item !== "object" ||
  !item.id\<close> only the last test can hold. \<^verbatim>\<open>this.lastID\<close>, which no caller reads, is
  not modelled.\<close>

definition addOrUpdateCartItem ::
  "conn \<Rightarrow> jsval \<Rightarrow> jsval \<Rightarrow> cart_item \<Rightarrow> unit outcome \<times> conn" where
  "addOrUpdateCartItem c userId mail item =
     (case positive_arg userId of
        None \<Rightarrow> (Err ''Valid user ID is required'', c)
      | Some uid \<Rightarrow>
     (case checked_email mail of
        None \<Rightarrow> (Err ''Valid email is required'', c)
      | Some em \<Rightarrow>
     if \<not> truthy (item_id item) then (Err ''Item must have an id'', c)
     else
     (case trim_or_empty (item_title item) of
        None \<Rightarrow> (Uncaught ''item.title?.trim is not a function'', c)
      | Some ti \<Rightarrow>
     (case trim_or_empty (item_image item) of
        None \<Rightarrow> (Uncaught ''item.image?.trim is not a function'', c)
      | Some im \<Rightarrow>
     (case sql_upsert \<lparr>b_user = uid, b_product = sql_bind (item_id item),
             b_email = trim em, b_title = ti, b_price = coerce_price (item_price item),
             b_image = im, b_quantity = coerce_quantity (item_quantity item)\<rparr> (view c) of
        Inl err \<Rightarrow> (Err err, c)
      | Inr t \<Rightarrow> (Ok (), put_view t c))))))"

definition updateCartItemQuantity ::
  "conn \<Rightarrow> jsval \<Rightarrow> jsval \<Rightarrow> jsval \<Rightarrow> bool outcome \<times> conn" where
  "updateCartItemQuantity c userId productId qty =
     (case positive_arg userId of
        None \<Rightarrow> (Err ''Valid user ID is required'', c)
      | Some uid \<Rightarrow>
     (case positive_arg productId of
        None \<Rightarrow> (Err ''Valid product ID is required'', c)
      | Some pid \<Rightarrow>
     (case positive_arg qty of
        None \<Rightarrow> (Err ''Quantity must be a positive number'', c)
      | Some q \<Rightarrow>
          (Ok (changes_line uid pid (view c) > 0),
           put_view (sql_update_quantity q uid pid (view c)) c))))"

definition removeCartItem :: "conn \<Rightarrow> jsval \<Rightarrow> jsval \<Rightarrow> bool outcome \<times> conn" where
  "removeCartItem c userId productId =
     (case positive_arg userId of
        None \<Rightarrow> (Err ''Valid user ID is required'', c)
      | Some uid \<Rightarrow>
     (case positive_arg productId of
        None \<Rightarrow> (Err ''Valid product ID is required'', c)
      | Some pid \<Rightarrow>
          (Ok (changes_line uid pid (view c) > 0),
           put_view (sql_delete_line uid pid (view c)) c)))"

definition clearCart :: "conn \<Rightarrow> jsval \<Rightarrow> bool outcome \<times> conn" where
  "clearCart c userId =
     (case positive_arg userId of
        None \<Rightarrow> (Err ''Valid user ID is required'', c)
      | Some uid \<Rightarrow>
          (Ok (changes_user uid (view c) > 0), put_view (sql_delete_user uid (view c)) c))"

section \<open>The cart routes of server.js\<close>

text \<open>
  A response is its status and its JSON body: \<^verbatim>\<open>{items, message?}\<close> or
  \<^verbatim>\<open>{error, code?, details?}\<close>.
\<close>

datatype body = Items "cart_line list" "string option"
  | Failure string "string option" "string option"

datatype response = Res nat body

text \<open>The payload of the access token, \<^verbatim>\<open>req.user\<close>.\<close>

record jwt_user =
  jwt_id :: jsval
  jwt_email :: jsval

text \<open>
  \<^verbatim>\<open>authenticateToken\<close>. \<^verbatim>\<open>jwt.verify\<close> belongs to a library and is a parameter:
  \<open>verify token\<close> is the payload of a token that is valid and not expired, and
  \<open>None\<close> otherwise. The token is \<^verbatim>\<open>authHeader && authHeader.split(" ")[1]\<close>.
\<close>

fun split_space :: "string \<Rightarrow> string \<Rightarrow> string list" where
  "split_space cur [] = [rev cur]"
| "split_space cur (c # cs) =
     (if c = CHR '' '' then rev cur # split_space [] cs else split_space (c # cur) cs)"

definition bearer_token :: "string option \<Rightarrow> string option" where
  "bearer_token authHeader =
     (case authHeader of
        None \<Rightarrow> None
      | Some h \<Rightarrow>
          if h = [] then None
          else (case split_space [] h of
                  a # t # rest \<Rightarrow> if t = [] then None else Some t
                | _ \<Rightarrow> None))"

datatype auth_result = Rejected response | Accepted jwt_user

definition authenticateToken ::
  "(string \<Rightarrow> jwt_user option) \<Rightarrow> string option \<Rightarrow> auth_result" where
  "authenticateToken verify authHeader =
     (case bearer_token authHeader of
        None \<Rightarrow> Rejected (Res 401 (Failure ''Authorization token required''
                              (Some ''MISSING_TOKEN'') None))
      | Some token \<Rightarrow>
          (case verify token of
             None \<Rightarrow> Rejected (Res 403 (Failure ''Invalid or expired token''
                                   (Some ''INVALID_TOKEN'') None))
           | Some usr \<Rightarrow> Accepted usr))"

text \<open>\<^verbatim>\<open>GET /api/cart\<close>\<close>

definition get_cart :: "conn \<Rightarrow> jwt_user \<Rightarrow> response" where
  "get_cart c usr =
     (case getCartByUserId c (jwt_id usr) of
        Ok cartItems \<Rightarrow>
          if cartItems = [] then Res 200 (Items [] (Some ''No items in cart''))
          else Res 200 (Items cartItems None)
      | Err msg \<Rightarrow> Res 500 (Failure ''Error fetching cart'' None (Some msg))
      | Uncaught msg \<Rightarrow> Res 500 (Failure ''Error fetching cart'' None (Some msg)))"

text \<open>The body of \<^verbatim>\<open>POST /api/cart\<close>:
  \<^verbatim>\<open>const { productId, quantity, title, price, image } = req.body\<close>.\<close>

record post_body =
  body_productId :: jsval
  body_quantity :: jsval
  body_title :: jsval
  body_price :: jsval
  body_image :: jsval

text \<open>
  \<^verbatim>\<open>POST /api/cart\<close>. The handler checks nothing itself: it passes
  \<^verbatim>\<open>{id: productId, title, price, image, quantity: quantity || 1}\<close> to
  \<^verbatim>\<open>addOrUpdateCartItem\<close> and answers 500 with the message as \<^verbatim>\<open>details\<close> to
  every error, also to the TypeError that its \<^verbatim>\<open>try\<close> block catches.
\<close>

definition post_cart :: "conn \<Rightarrow> jwt_user \<Rightarrow> post_body \<Rightarrow> response \<times> conn" where
  "post_cart c usr b =
     (case addOrUpdateCartItem c (jwt_id usr) (jwt_email usr)
             \<lparr>item_id = body_productId b, item_title = body_title b,
              item_price = body_price b, item_image = body_image b,
              item_quantity = js_or (body_quantity b) (JNum 1)\<rparr> of
        (Err msg, c') \<Rightarrow> (Res 500 (Failure ''Failed to update cart'' None (Some msg)), c')
      | (Uncaught msg, c') \<Rightarrow> (Res 500 (Failure ''Failed to update cart'' None (Some msg)), c')
      | (Ok u, c') \<Rightarrow>
          (case getCartByUserId c' (jwt_id usr) of
             Ok cartItems \<Rightarrow> (Res 200 (Items cartItems None), c')
           | Err msg \<Rightarrow>
               (Res 500 (Failure ''Error fetching updated cart'' None (Some msg)), c')
           | Uncaught msg \<Rightarrow> (Res 500 (Failure ''Error fetching updated cart'' None (Some msg)), c')))"

text \<open>
  \<^verbatim>\<open>PUT /api/cart/:productId\<close>, with the route parameter (a string) and
  \<^verbatim>\<open>req.body?.quantity\<close>. db.js exports \<^verbatim>\<open>updateCartItemQuantity\<close>,
  \<^verbatim>\<open>deleteCartItem\<close>, \<^verbatim>\<open>clearCart\<close> and \<^verbatim>\<open>getCartByUserId\<close>, so the
  \<^verbatim>\<open>typeof ... === "function"\<close> tests of the three routes below hold and the raw SQL
  after them is never reached.
\<close>

definition put_cart :: "conn \<Rightarrow> jwt_user \<Rightarrow> string \<Rightarrow> jsval \<Rightarrow> response \<times> conn" where
  "put_cart c usr param qty =
     (let userId = jwt_id usr;
          productId = parseInt (JStr param);
          quantity' = parseInt qty
      in if \<not> truthy userId then (Res 401 (Failure ''Not authenticated'' None None), c)
         else if \<not> truthy productId \<or> isNaN productId
         then (Res 400 (Failure ''Invalid product ID'' None None), c)
         else if \<not> truthy quantity' \<or> isNaN quantity' \<or> js_lt quantity' 1
         then (Res 400 (Failure ''Invalid quantity'' None None), c)
         else
           (case updateCartItemQuantity c userId productId quantity' of
              (Err msg, c') \<Rightarrow> (Res 500 (Failure ''Database update error'' None (Some msg)), c')
            | (Uncaught msg, c') \<Rightarrow> (Res 500 (Failure ''Internal server error'' None (Some msg)), c')
            | (Ok success, c') \<Rightarrow>
                if \<not> success then (Res 404 (Failure ''Cart item not found'' None None), c')
                else
                  (case getCartByUserId c' userId of
                     Ok cartItems \<Rightarrow> (Res 200 (Items cartItems None), c')
                   | Err msg \<Rightarrow>
                       (Res 500 (Failure ''Failed to fetch updated cart'' None (Some msg)), c')
                   | Uncaught msg \<Rightarrow>
                       (Res 500 (Failure ''Internal server error'' None (Some msg)), c'))))"

text \<open>\<^verbatim>\<open>DELETE /api/cart/:productId\<close>; the helper's result \<^verbatim>\<open>removed\<close> is not read.\<close>

definition delete_cart_item :: "conn \<Rightarrow> jwt_user \<Rightarrow> string \<Rightarrow> response \<times> conn" where
  "delete_cart_item c usr param =
     (let userId = jwt_id usr;
          productId = parseInt (JStr param)
      in if \<not> truthy userId then (Res 401 (Failure ''Not authenticated'' None None), c)
         else if \<not> truthy productId \<or> isNaN productId
         then (Res 400 (Failure ''Invalid product ID'' None None), c)
         else
           (case removeCartItem c userId productId of
              (Err msg, c') \<Rightarrow>
                (Res 500 (Failure ''Failed to delete cart item'' None (Some msg)), c')
            | (Uncaught msg, c') \<Rightarrow> (Res 500 (Failure ''Internal server error'' None (Some msg)), c')
            | (Ok removed, c') \<Rightarrow>
                (case getCartByUserId c' userId of
                   Ok cartItems \<Rightarrow> (Res 200 (Items cartItems None), c')
                 | Err msg \<Rightarrow>
                     (Res 500 (Failure ''Failed to fetch updated cart'' None (Some msg)), c')
                 | Uncaught msg \<Rightarrow>
                     (Res 500 (Failure ''Internal server error'' None (Some msg)), c'))))"

text \<open>\<^verbatim>\<open>DELETE /api/cart\<close>; the helper's result \<^verbatim>\<open>success\<close> is not read.\<close>

definition delete_cart :: "conn \<Rightarrow> jwt_user \<Rightarrow> response \<times> conn" where
  "delete_cart c usr =
     (case clearCart c (jwt_id usr) of
        (Err msg, c') \<Rightarrow> (Res 500 (Failure ''Failed to clear cart'' None (Some msg)), c')
      | (Uncaught msg, c') \<Rightarrow> (Res 500 (Failure ''Internal server error'' None (Some msg)), c')
      | (Ok success, c') \<Rightarrow>
          (case getCartByUserId c' (jwt_id usr) of
             Ok cartItems \<Rightarrow> (Res 200 (Items cartItems None), c')
           | Err msg \<Rightarrow>
               (Res 500 (Failure ''Failed to fetch updated cart'' None (Some msg)), c')
           | Uncaught msg \<Rightarrow> (Res 500 (Failure ''Internal server error'' None (Some msg)), c')))"

section \<open>The cart page of the client\<close>

text \<open>
  The \<^verbatim>\<open>Cart\<close> component keeps \<^verbatim>\<open>cartItems\<close>, an array of
  \<^verbatim>\<open>{product_id, name, price, quantity, image}\<close>, and \<^verbatim>\<open>loading\<close>. The toasts it
  shows and the route it navigates to are recorded with them. The handlers below build new
  arrays and new objects (\<^verbatim>\<open>map\<close>, \<^verbatim>\<open>filter\<close>, object spread), so the items are
  modelled by value.
\<close>

record ui_item =
  ui_product :: sqlval
  ui_name :: string
  ui_price :: int
  ui_quantity :: int
  ui_image :: string

record cart_page =
  cartItems :: "ui_item list"
  loading :: bool
  toasts :: "string list"
  route :: string

text \<open>What an axios call comes back with: no response at all (network error, timeout) or
  the server's response. axios resolves on a status from 200 to 299 and rejects on any
  other; the same range is \<^verbatim>\<open>response.ok\<close> of \<^verbatim>\<open>fetch\<close>.\<close>

datatype axios_result = NoResponse | Got response

definition resolved :: "nat \<Rightarrow> bool" where
  "resolved s = (200 \<le> s \<and> s < 300)"

text \<open>
  The response interceptor that \<^verbatim>\<open>AuthProvider\<close> installs on axios: on status 401,
  once per request, it calls \<^verbatim>\<open>refreshLogin\<close> and, when that succeeds, sends the
  request again; every other error is passed on as it is.
\<close>

definition interceptor :: "bool \<Rightarrow> axios_result \<Rightarrow> axios_result \<Rightarrow> axios_result" where
  "interceptor refreshed first again =
     (case first of
        Got (Res s b) \<Rightarrow> if s = 401 \<and> refreshed then again else first
      | NoResponse \<Rightarrow> first)"

text \<open>The mapping of a server line into the page's format:
  \<^verbatim>\<open>{product_id: it.id ?? it.product_id, name: it.title ?? it.name,
  price: parseFloat(it.price) || 0, quantity: it.quantity || 1,
  image: it.image || "/logo192.png"}\<close>.\<close>

definition formatted :: "cart_line \<Rightarrow> ui_item" where
  "formatted it = \<lparr>ui_product = line_id it, ui_name = line_title it,
     ui_price = line_price it,
     ui_quantity = (if line_quantity it = 0 then 1 else line_quantity it),
     ui_image = (if line_image it = [] then ''/logo192.png'' else line_image it)\<rparr>"

definition handleUnauthorized :: "cart_page \<Rightarrow> cart_page" where
  "handleUnauthorized st =
     st\<lparr>toasts := toasts st @ [''Session expired. Please login again.''], route := ''/login''\<rparr>"

text \<open>\<^verbatim>\<open>err.response?.data?.error || fallback\<close>\<close>

definition error_text :: "axios_result \<Rightarrow> string \<Rightarrow> string" where
  "error_text r fallback =
     (case r of
        Got (Res s (Failure e code details)) \<Rightarrow> if e = [] then fallback else e
      | _ \<Rightarrow> fallback)"

text \<open>The \<^verbatim>\<open>catch\<close> and \<^verbatim>\<open>finally\<close> blocks shared by \<^verbatim>\<open>updateQuantity\<close>
  and \<^verbatim>\<open>removeItem\<close>: put \<^verbatim>\<open>prevCart\<close> back, then look at the status.\<close>

definition on_failure :: "ui_item list \<Rightarrow> axios_result \<Rightarrow> string \<Rightarrow> cart_page \<Rightarrow> cart_page" where
  "on_failure prevCart r fallback st =
     (let st1 = st\<lparr>cartItems := prevCart\<rparr>;
          st2 = (case r of
                   Got (Res s b) \<Rightarrow>
                     if s = 401 then handleUnauthorized st1
                     else st1\<lparr>toasts := toasts st1 @ [error_text r fallback]\<rparr>
                 | NoResponse \<Rightarrow> st1\<lparr>toasts := toasts st1 @ [error_text r fallback]\<rparr>)
      in st2\<lparr>loading := False\<rparr>)"

text \<open>The \<^verbatim>\<open>try\<close> block after a resolved call: a body with \<^verbatim>\<open>items\<close> replaces the
  cart, any other body leaves the optimistic cart and shows a toast.\<close>

definition on_success :: "body \<Rightarrow> string \<Rightarrow> cart_page \<Rightarrow> cart_page" where
  "on_success b done st =
     (case b of
        Items serverItems m \<Rightarrow> st\<lparr>cartItems := map formatted serverItems, loading := False\<rparr>
      | Failure e code details \<Rightarrow> st\<lparr>toasts := toasts st @ [done], loading := False\<rparr>)"

text \<open>\<^verbatim>\<open>updateQuantity(productId, delta)\<close>, given what the PUT request comes back with.\<close>

definition updateQuantity ::
  "cart_page \<Rightarrow> bool \<Rightarrow> sqlval \<Rightarrow> int \<Rightarrow> axios_result \<Rightarrow> cart_page" where
  "updateQuantity st isAuthenticated productId delta r =
     (if \<not> isAuthenticated
      then st\<lparr>toasts := toasts st @ [''Please login to update your cart''], route := ''/login''\<rparr>
      else case find (\<lambda>i. ui_product i = productId) (cartItems st) of
        None \<Rightarrow> st\<lparr>toasts := toasts st @ [''Item not found in cart'']\<rparr>
      | Some item \<Rightarrow>
          let newQuantity = max 1 (ui_quantity item + delta) in
          if newQuantity = ui_quantity item then st
          else
            let prevCart = cartItems st;
                nextCart = map (\<lambda>it. if ui_product it = productId
                                       then it\<lparr>ui_quantity := newQuantity\<rparr> else it) prevCart;
                st1 = st\<lparr>cartItems := nextCart, loading := True\<rparr>
            in (case r of
                  Got (Res s b) \<Rightarrow>
                    if resolved s then on_success b ''Quantity updated'' st1
                    else on_failure prevCart r ''Failed to update quantity.'' st1
                | NoResponse \<Rightarrow> on_failure prevCart r ''Failed to update quantity.'' st1))"

text \<open>\<^verbatim>\<open>removeItem(productId)\<close>, given what the DELETE request comes back with.\<close>

definition removeItem :: "cart_page \<Rightarrow> bool \<Rightarrow> sqlval \<Rightarrow> axios_result \<Rightarrow> cart_page" where
  "removeItem st isAuthenticated productId r =
     (if \<not> isAuthenticated
      then st\<lparr>toasts := toasts st @ [''Please login to modify your cart''], route := ''/login''\<rparr>
      else
        let prevCart = cartItems st;
            nextCart = filter (\<lambda>item. ui_product item \<noteq> productId) prevCart;
            st1 = st\<lparr>cartItems := nextCart, loading := True\<rparr>
        in (case r of
              Got (Res s b) \<Rightarrow>
                if resolved s then on_success b ''Item removed successfully'' st1
                else on_failure prevCart r ''Failed to remove item.'' st1
            | NoResponse \<Rightarrow> on_failure prevCart r ''Failed to remove item.'' st1))"

section \<open>The product page of the client\<close>

text \<open>
  \<^verbatim>\<open>addToCart\<close> in Products.js copies the array with \<^verbatim>\<open>[...cartItems]\<close> and then
  assigns to a property of one of its elements. The copy holds the same objects as the
  original, so the objects live in a store (address to object) and an array is the list
  of the addresses of its elements. Of a product and of a cart object the fields the cart
  uses are kept.
\<close>

record product =
  p_id :: int
  p_title :: string
  p_price :: int
  p_image :: string

record cart_obj =
  o_id :: int
  o_title :: string
  o_price :: int
  o_image :: string
  o_quantity :: int

record products_page =
  objects :: "nat \<rightharpoonup> cart_obj"
  next_addr :: nat
  cart_array :: "nat list"
  localStorage :: "cart_obj list"
  toastMessage :: string
  location :: string

text \<open>The values of an array, as the page shows them and as \<^verbatim>\<open>JSON.stringify\<close> writes
  them.\<close>

definition contents :: "(nat \<rightharpoonup> cart_obj) \<Rightarrow> nat list \<Rightarrow> cart_obj list" where
  "contents h arr = List.map_filter h arr"

definition shown_cart :: "products_page \<Rightarrow> cart_obj list" where
  "shown_cart st = contents (objects st) (cart_array st)"

text \<open>What \<^verbatim>\<open>fetch\<close> comes back with: a rejection with its message, or a status and
  the \<^verbatim>\<open>message\<close> field of the JSON body when it has one.\<close>

datatype fetch_result = FetchFailed string | Fetched nat "string option"

text \<open>The address of the first element with \<^verbatim>\<open>item.id === product.id\<close>
  (\<^verbatim>\<open>findIndex\<close>, then the element at that index).\<close>

definition existing_item :: "(nat \<rightharpoonup> cart_obj) \<Rightarrow> nat list \<Rightarrow> int \<Rightarrow> nat option" where
  "existing_item h arr pid =
     find (\<lambda>a. case h a of None \<Rightarrow> False | Some obj \<Rightarrow> o_id obj = pid) arr"

definition addToCart ::
  "products_page \<Rightarrow> bool \<Rightarrow> bool \<Rightarrow> product \<Rightarrow> fetch_result \<Rightarrow> products_page" where
  "addToCart st isAuthenticated has_user p r =
     (if \<not> isAuthenticated \<or> \<not> has_user
      then st\<lparr>toastMessage := ''Please login to add items to cart'', location := ''/login''\<rparr>
      else
        let cartItems0 = cart_array st;
            (h1, nxt, updatedCart) =
              (case existing_item (objects st) cartItems0 (p_id p) of
                 Some a \<Rightarrow>
                   ((case objects st a of
                       None \<Rightarrow> objects st
                     | Some obj \<Rightarrow> (objects st)(a \<mapsto> obj\<lparr>o_quantity := o_quantity obj + 1\<rparr>)),
                    next_addr st, cartItems0)
               | None \<Rightarrow>
                   ((objects st)(next_addr st \<mapsto>
                       \<lparr>o_id = p_id p, o_title = p_title p, o_price = p_price p,
                        o_image = p_image p, o_quantity = 1\<rparr>),
                    Suc (next_addr st), cartItems0 @ [next_addr st]));
            st1 = st\<lparr>objects := h1, next_addr := nxt, cart_array := updatedCart,
                     localStorage := contents h1 updatedCart\<rparr>;
            caught = (\<lambda>msg. st1\<lparr>cart_array := cartItems0,
                                  localStorage := contents h1 cartItems0,
                                  toastMessage := msg\<rparr>)
        in (case r of
              FetchFailed msg \<Rightarrow>
                caught (if msg = [] then ''Failed to update cart. Please try again.'' else msg)
            | Fetched s m \<Rightarrow>
                if s = 401
                then st1\<lparr>toastMessage := ''Session expired. Please login again.'',
                         location := ''/login''\<rparr>
                else if \<not> resolved s
                then caught (case m of None \<Rightarrow> ''Failed to update cart''
                             | Some msg \<Rightarrow> if msg = [] then ''Failed to update cart'' else msg)
                else st1\<lparr>toastMessage := ''Item added to cart!''\<rparr>))"

section \<open>Notions used in the statements\<close>

text \<open>The pair that \<^verbatim>\<open>UNIQUE(user_id, product_id)\<close> constrains.\<close>

definition line_key :: "cart_row \<Rightarrow> int \<times> sqlval" where
  "line_key r = (user_id r, product_id r)"

definition unique_lines :: "carts \<Rightarrow> bool" where
  "unique_lines t = distinct (map line_key t)"

text \<open>Both tables of the connection, the committed one and the working copy of an open
  transaction, satisfy the constraint.\<close>

definition unique_conn :: "conn \<Rightarrow> bool" where
  "unique_conn c =
     (unique_lines (committed c)
      \<and> (case pending c of None \<Rightarrow> True | Some w \<Rightarrow> unique_lines w))"

text \<open>A call of one of the five mutating cart functions with its arguments, and a
  sequence of such calls run one after the other on the connection.\<close>

datatype store_op =
    Upsert jsval jsval cart_item
  | ReplaceAll jsval jsval "cart_item list option"
  | SetQuantity jsval jsval jsval
  | RemoveLine jsval jsval
  | Clear jsval

fun apply_op :: "conn \<Rightarrow> store_op \<Rightarrow> conn" where
  "apply_op c (Upsert userId mail item) = snd (addOrUpdateCartItem c userId mail item)"
| "apply_op c (ReplaceAll userId mail items) = snd (saveCart c userId mail items)"
| "apply_op c (SetQuantity userId productId q) =
     snd (updateCartItemQuantity c userId productId q)"
| "apply_op c (RemoveLine userId productId) = snd (removeCartItem c userId productId)"
| "apply_op c (Clear userId) = snd (clearCart c userId)"

definition run_ops :: "conn \<Rightarrow> store_op list \<Rightarrow> conn" where
  "run_ops c ops = foldl apply_op c ops"

text \<open>The arguments with which \<^verbatim>\<open>addOrUpdateCartItem\<close> gets as far as its callback
  without an error: they pass its three tests, \<^verbatim>\<open>trim\<close> does not throw and the price
  is not NaN. \<open>upsert_for u p\<close> holds of such a call for user \<open>u\<close> and product \<open>p\<close>.\<close>

definition upsert_accepts :: "jsval \<Rightarrow> jsval \<Rightarrow> cart_item \<Rightarrow> bool" where
  "upsert_accepts userId mail item =
     (positive_arg userId \<noteq> None \<and> checked_email mail \<noteq> None \<and> truthy (item_id item)
      \<and> trim_or_empty (item_title item) \<noteq> None \<and> trim_or_empty (item_image item) \<noteq> None
      \<and> coerce_price (item_price item) \<noteq> None)"

fun upsert_for :: "int \<Rightarrow> sqlval \<Rightarrow> store_op \<Rightarrow> bool" where
  "upsert_for u p (Upsert userId mail item) =
     (positive_arg userId = Some u \<and> integer_affinity (sql_bind (item_id item)) = p
      \<and> upsert_accepts userId mail item)"
| "upsert_for u p other = False"

text \<open>Every line the connection currently shows for a user id, in the shape
  \<^verbatim>\<open>getCartByUserId\<close> returns.\<close>

definition stored_lines :: "conn \<Rightarrow> jsval \<Rightarrow> cart_line list" where
  "stored_lines c userId =
     (case positive_arg userId of
        None \<Rightarrow> []
      | Some u \<Rightarrow> map line_of (filter (\<lambda>r. user_id r = u) (view c)))"

text \<open>The rows of one user.\<close>

definition lines_of_user :: "int \<Rightarrow> carts \<Rightarrow> carts" where
  "lines_of_user u t = filter (\<lambda>r. user_id r = u) t"

section \<open>Sample data\<close>

text \<open>User 7 with a mug in the cart, user 8 with a pen.\<close>

definition ann :: jwt_user where
  "ann = \<lparr>jwt_id = JNum 7, jwt_email = JStr ''ann@example.com''\<rparr>"

definition mug :: cart_item where
  "mug = \<lparr>item_id = JNum 42, item_title = JStr ''Mug'', item_price = JNum 999,
           item_image = JStr ''mug.png'', item_quantity = JNum 2\<rparr>"

definition big_mug :: cart_item where
  "big_mug = \<lparr>item_id = JNum 42, item_title = JStr '' Big mug '', item_price = JNum 1299,
               item_image = JUndefined, item_quantity = JNum 3\<rparr>"



definition mug_row :: cart_row where
  "mug_row = \<lparr>user_id = 7, product_id = SInt 42, email = ''ann@example.com'', title = ''Mug'',
               price = 999, image = ''mug.png'', quantity = 2\<rparr>"

definition pen_row :: cart_row where
  "pen_row = \<lparr>user_id = 8, product_id = SInt 5, email = ''bob@example.com'', title = ''Pen'',
               price = 150, image = [], quantity = 1\<rparr>"

definition abc_row :: cart_row where
  "abc_row = \<lparr>user_id = 7, product_id = SText ''abc'', email = ''ann@example.com'',
     title = ''Mug'', price = 999, image = [], quantity = 1\<rparr>"

definition shop :: conn where
  "shop = \<lparr>committed = [mug_row, pen_row], pending = None\<rparr>"

definition no_product_body :: post_body where
  "no_product_body = \<lparr>body_productId = JUndefined, body_quantity = JNum 1,
     body_title = JStr ''Mug'', body_price = JNum 999, body_image = JUndefined\<rparr>"

definition abc_body :: post_body where
  "abc_body = \<lparr>body_productId = JStr ''abc'', body_quantity = JNum 1,
     body_title = JStr ''Mug'', body_price = JNum 999, body_image = JUndefined\<rparr>"

text \<open>The same cart as the two pages of the client hold it.\<close>

definition mug_obj :: cart_obj where
  "mug_obj = \<lparr>o_id = 42, o_title = ''Mug'', o_price = 999, o_image = ''mug.png'',
               o_quantity = 2\<rparr>"

definition mug_product :: product where
  "mug_product = \<lparr>p_id = 42, p_title = ''Mug'', p_price = 999, p_image = ''mug.png''\<rparr>"

definition products_open :: products_page where
  "products_open = \<lparr>objects = [0 \<mapsto> mug_obj], next_addr = 1, cart_array = [0],
     localStorage = [mug_obj], toastMessage = [], location = ''/products''\<rparr>"

definition cart_open :: cart_page where
  "cart_open = \<lparr>cartItems = [\<lparr>ui_product = SInt 42, ui_name = ''Mug'', ui_price = 999,
       ui_quantity = 2, ui_image = ''mug.png''\<rparr>], loading = False, toasts = [],
     route = ''/cart''\<rparr>"

text \<open>A verifier that knows one valid token, and the answer of \<^verbatim>\<open>authenticateToken\<close>
  to any other.\<close>

definition sample_verify :: "string \<Rightarrow> jwt_user option" where
  "sample_verify token = (if token = ''fresh-token'' then Some ann else None)"

definition expired_reply :: response where
  "expired_reply = Res 403 (Failure ''Invalid or expired token'' (Some ''INVALID_TOKEN'') None)"

section \<open>Evaluation rules\<close>

lemmas js_eval = parse_int_string_def space1_def space2_def space3_def is_digit_def digit_of_def isNaN_def js_le_def
  js_lt_def js_gt_def positive_arg_def checked_email_def trim_def coerce_price_def
  coerce_quantity_def signed_numeral_def string_to_number_def js_or_def

lemmas sql_eval = sql_insert_def sql_upsert_def sql_update_quantity_def sql_delete_line_def
  sql_delete_user_def changes_line_def changes_user_def same_line_def new_row_def view_def
  put_view_def sql_begin_def sql_commit_def sql_rollback_def

section \<open>Facts about the statements and the connection\<close>

lemma view_put_view: "view (put_view t c) = t"
  by (simp add: view_def put_view_def split: option.splits)

lemma same_line_key: "same_line u p r = (line_key r = (u, p))"
  by (auto simp: same_line_def line_key_def)

lemma same_line_eq: "same_line u p = (\<lambda>r. line_key r = (u, p))"
  by (simp add: fun_eq_iff same_line_key)

lemma list_ex_same_line: "list_ex (same_line u p) t = ((u, p) \<in> set (map line_key t))"
  by (force simp: list_ex_iff same_line_key)

lemma decimal_not_null: "decimal m e plain \<noteq> SNull"
  by (simp add: decimal_def Let_def split: prod.splits)

lemma sql_number_not_null: "sql_number s \<noteq> Some SNull"
  by (simp add: sql_number_def Let_def decimal_not_null)

lemma affinity_not_null: "v \<noteq> SNull \<Longrightarrow> integer_affinity v \<noteq> SNull"
  using sql_number_not_null by (cases v) (auto split: option.splits)

lemma truthy_not_null:
  assumes "truthy v"
  shows "integer_affinity (sql_bind v) \<noteq> SNull"
proof -
  have "sql_bind v \<noteq> SNull" using assms by (cases v) auto
  then show ?thesis by (rule affinity_not_null)
qed

text \<open>White space of more than one byte is trimmed, and numeric text is stored as its
  number.\<close>

lemma trim_wide_space:
  "trim ([CHR 0xC2, CHR 0xA0] @ ''Mug'' @ [CHR 0xEF, CHR 0xBB, CHR 0xBF, CHR 0x0A]) = ''Mug''"
  by (simp add: trim_def space1_def space2_def space3_def)

lemma affinity_of_text:
  "integer_affinity (SText ''42.0'') = SInt 42 \<and> integer_affinity (SText ''4.2e1'') = SInt 42
   \<and> integer_affinity (SText '' 42 '') = SInt 42
   \<and> integer_affinity (SText ''42.50'') = SReal 425 1
   \<and> integer_affinity (SText ''42abc'') = SText ''42abc''
   \<and> integer_affinity (SText ''1e'') = SText ''1e''"
  by code_simp

lemma affinity_abc: "integer_affinity (SText ''abc'') = SText ''abc''"
  by code_simp

lemma positive_arg_number: "0 < n \<Longrightarrow> positive_arg (JNum n) = Some n"
  by (simp add: positive_arg_def isNaN_def js_le_def)

lemma changes_line_positive: "(0 < changes_line u p t) = list_ex (same_line u (SInt p)) t"
  by (auto simp: changes_line_def list_ex_iff filter_empty_conv)

lemma sql_upsert_ok:
  assumes "integer_affinity (b_product b) \<noteq> SNull" and "b_price b = Some pr"
  shows "sql_upsert b t =
     Inr (if list_ex (same_line (b_user b) (integer_affinity (b_product b))) t
          then map (\<lambda>r. if same_line (b_user b) (integer_affinity (b_product b)) r
                         then r\<lparr>quantity := quantity r + b_quantity b, title := b_title b,
                                price := pr, image := b_image b\<rparr>
                         else r) t
          else t @ [new_row b pr])"
  using assms by (simp add: sql_upsert_def)

lemma addOrUpdate_accepted:
  assumes "positive_arg userId = Some u" and "checked_email mail = Some em"
    and "truthy (item_id item)"
    and "trim_or_empty (item_title item) = Some ti"
    and "trim_or_empty (item_image item) = Some im"
    and "coerce_price (item_price item) = Some pr"
  shows "addOrUpdateCartItem c userId mail item =
     (case sql_upsert \<lparr>b_user = u, b_product = sql_bind (item_id item), b_email = trim em,
             b_title = ti, b_price = Some pr, b_image = im,
             b_quantity = coerce_quantity (item_quantity item)\<rparr> (view c) of
        Inl err \<Rightarrow> (Err err, c) | Inr t \<Rightarrow> (Ok (), put_view t c))"
  using assms by (simp add: addOrUpdateCartItem_def)

text \<open>\<open>upsert_accepts\<close> is exactly the condition under which the call answers \<open>Ok\<close>,
  whatever the table holds.\<close>

lemma upsert_accepts_iff:
  "(fst (addOrUpdateCartItem c userId mail item) = Ok ()) = upsert_accepts userId mail item"
  by (auto simp: addOrUpdateCartItem_def upsert_accepts_def sql_upsert_def truthy_not_null
           split: option.splits sum.splits)

text \<open>The flag that \<^verbatim>\<open>finalize\<close> reads is raised exactly when an element of the list
  was not inserted.\<close>

lemma insert_items_flag:
  "insert_items u em items h t = Finished h' t' \<Longrightarrow>
     length t' \<le> length t + length items \<and> (h' = (h \<or> length t' < length t + length items))"
proof (induction items arbitrary: h t)
  case Nil
  then show ?case by simp
next
  case (Cons item rest)
  from Cons.prems obtain ti im where ti: "trim_or_empty (item_title item) = Some ti"
    and im: "trim_or_empty (item_image item) = Some im"
    by (auto split: option.splits)
  let ?b = "\<lparr>b_user = u, b_product = sql_bind (item_id item), b_email = em, b_title = ti,
             b_price = coerce_price (item_price item), b_image = im,
             b_quantity = coerce_quantity (item_quantity item)\<rparr>"
  show ?case
  proof (cases "sql_insert ?b t")
    case (Inl e)
    with Cons.prems ti im have "insert_items u em rest True t = Finished h' t'" by simp
    from Cons.IH[OF this] show ?thesis by auto
  next
    case (Inr t1)
    then have len: "length t1 = Suc (length t)"
      by (auto simp: sql_insert_def split: if_splits option.splits)
    from Inr Cons.prems ti im have "insert_items u em rest h t1 = Finished h' t'" by simp
    from Cons.IH[OF this] len show ?thesis by auto
  qed
qed

section \<open>Replacing a cart\<close>

text \<open>When the loop of \<^verbatim>\<open>saveCart\<close> reaches its end with \<^verbatim>\<open>hasError\<close> set, on a
  connection with no transaction open, the callback gets \<^verbatim>\<open>Insert error\<close> and the
  ROLLBACK leaves the connection exactly as it was before the call.\<close>

lemma saveCart_rolls_back:
  assumes "pending c = None"
    and "positive_arg userId = Some uid"
    and "checked_email mail = Some em"
    and "insert_items uid (trim em) items False (sql_delete_user uid (committed c))
           = Finished True t"
  shows "saveCart c userId mail (Some items) = (Err ''Insert error'', c)"
  using assms
  by (simp add: saveCart_def sql_begin_def view_def put_view_def sql_rollback_def)

text \<open>For example, a list that names product 42 twice: the second INSERT violates the
  UNIQUE constraint and the old cart stays.\<close>

lemma saveCart_rolls_back_example:
  "saveCart shop (JNum 7) (JStr ''ann@example.com'') (Some [mug, mug])
     = (Err ''Insert error'', shop)"
proof -
  have h1: "pending shop = None" by (simp add: shop_def)
  have h2: "positive_arg (JNum 7) = Some 7" by (simp add: js_eval)
  have h3: "checked_email (JStr ''ann@example.com'') = Some ''ann@example.com''"
    by (simp add: js_eval)
  have h4: "insert_items 7 (trim ''ann@example.com'') [mug, mug] False
        (sql_delete_user 7 (committed shop)) = Finished True [pen_row, mug_row]"
    by (simp add: js_eval sql_eval shop_def mug_def mug_row_def pen_row_def)
  from saveCart_rolls_back[OF h1 h2 h3 h4] show ?thesis .
qed



section \<open>One line per user and product\<close>

lemma unique_insert:
  assumes "sql_insert b t = Inr t'" and "unique_lines t"
  shows "unique_lines t'"
  using assms
  by (auto simp: sql_insert_def unique_lines_def list_ex_same_line new_row_def line_key_def
           split: if_splits option.splits)

lemma key_after_update:
  "line_key (if same_line u p r then r\<lparr>quantity := q, title := a, price := b, image := d\<rparr>
             else r) = line_key r"
  by (simp add: line_key_def)

lemma unique_upsert:
  assumes "sql_upsert b t = Inr t'" and "unique_lines t"
  shows "unique_lines t'"
proof (cases "list_ex (same_line (b_user b) (integer_affinity (b_product b))) t")
  case True
  with assms show ?thesis
    by (auto simp: sql_upsert_def unique_lines_def comp_def key_after_update
             split: if_splits option.splits)
next
  case False
  with assms show ?thesis
    by (auto simp: sql_upsert_def unique_lines_def list_ex_same_line new_row_def line_key_def
             split: if_splits option.splits)
qed

lemma unique_update_quantity: "unique_lines t \<Longrightarrow> unique_lines (sql_update_quantity q u p t)"
proof -
  have "map line_key (sql_update_quantity q u p t) = map line_key t"
    by (induction t) (auto simp: sql_update_quantity_def line_key_def)
  then show "unique_lines t \<Longrightarrow> unique_lines (sql_update_quantity q u p t)"
    by (simp add: unique_lines_def)
qed

lemma unique_filter: "unique_lines t \<Longrightarrow> unique_lines (filter P t)"
  by (simp add: unique_lines_def distinct_map_filter)

lemma unique_insert_items:
  "unique_lines t \<Longrightarrow>
   insert_items uid em items h t = Finished h' t' \<or> insert_items uid em items h t = Threw m t' \<Longrightarrow>
   unique_lines t'"
proof (induction items arbitrary: h t)
  case Nil
  then show ?case by simp
next
  case (Cons item rest)
  then show ?case
    by (auto split: option.splits sum.splits dest: unique_insert)
qed

lemma unique_put_view: "unique_conn c \<Longrightarrow> unique_lines t \<Longrightarrow> unique_conn (put_view t c)"
  by (auto simp: unique_conn_def put_view_def split: option.splits)

lemma unique_view: "unique_conn c \<Longrightarrow> unique_lines (view c)"
  by (auto simp: unique_conn_def view_def split: option.splits)

lemma unique_rollback: "unique_conn c \<Longrightarrow> unique_conn (sql_rollback c)"
  by (simp add: unique_conn_def sql_rollback_def)

lemma unique_begin: "unique_conn c \<Longrightarrow> unique_conn (snd (sql_begin c))"
  by (auto simp: unique_conn_def sql_begin_def split: option.splits)

lemma unique_commit: "unique_conn c \<Longrightarrow> unique_conn (snd (sql_commit c))"
  by (auto simp: unique_conn_def sql_commit_def split: option.splits)

lemma unique_saveCart:
  assumes "unique_conn c"
  shows "unique_conn (snd (saveCart c userId mail items))"
proof (cases "positive_arg userId")
  case None
  with assms show ?thesis by (simp add: saveCart_def)
next
  case uid: (Some uid)
  show ?thesis
  proof (cases "checked_email mail")
    case None
    with assms uid show ?thesis by (simp add: saveCart_def)
  next
    case em: (Some em)
    show ?thesis
    proof (cases items)
      case None
      with assms uid em show ?thesis by (simp add: saveCart_def)
    next
      case xs: (Some xs)
      obtain e c1 where b: "sql_begin c = (e, c1)" by (cases "sql_begin c")
      have u1: "unique_conn c1" using unique_begin[OF assms] b by simp
      define c2 where "c2 = put_view (sql_delete_user uid (view c1)) c1"
      have u2: "unique_conn c2"
        unfolding c2_def sql_delete_user_def
        by (intro unique_put_view u1 unique_filter unique_view)
      show ?thesis
      proof (cases e)
        case (Some beginErr)
        with uid em xs b u1 show ?thesis
          by (simp add: saveCart_def unique_rollback)
      next
        case None
        show ?thesis
        proof (cases "insert_items uid (trim em) xs False (view c2)")
          case (Threw m t)
          then have "unique_lines t" using unique_insert_items[OF unique_view[OF u2]] by blast
          with uid em xs b None Threw u2 show ?thesis
            by (simp add: saveCart_def c2_def[symmetric] unique_put_view)
        next
          case (Finished hasError t)
          then have "unique_lines t" using unique_insert_items[OF unique_view[OF u2]] by blast
          then have u3: "unique_conn (put_view t c2)" using u2 by (simp add: unique_put_view)
          obtain e4 c4 where cm: "sql_commit (put_view t c2) = (e4, c4)"
            by (cases "sql_commit (put_view t c2)")
          have u4: "unique_conn c4" using unique_commit[OF u3] cm by simp
          from uid em xs b None Finished u3 u4 cm show ?thesis
            by (auto simp: saveCart_def c2_def[symmetric] Let_def unique_rollback
                     split: option.splits)
        qed
      qed
    qed
  qed
qed

lemma unique_addOrUpdateCartItem:
  assumes "unique_conn c"
  shows "unique_conn (snd (addOrUpdateCartItem c userId mail item))"
  using assms unique_upsert[OF _ unique_view[OF assms]]
  by (auto simp: addOrUpdateCartItem_def unique_put_view
           split: option.splits sum.splits)

lemma unique_updateCartItemQuantity:
  "unique_conn c \<Longrightarrow> unique_conn (snd (updateCartItemQuantity c userId productId q))"
  by (auto simp: updateCartItemQuantity_def unique_put_view unique_view unique_update_quantity
           split: option.splits)

lemma unique_removeCartItem:
  "unique_conn c \<Longrightarrow> unique_conn (snd (removeCartItem c userId productId))"
  by (auto simp: removeCartItem_def sql_delete_line_def unique_put_view unique_view unique_filter
           split: option.splits)

lemma unique_clearCart:
  "unique_conn c \<Longrightarrow> unique_conn (snd (clearCart c userId))"
  by (auto simp: clearCart_def sql_delete_user_def unique_put_view unique_view unique_filter
           split: option.splits)

lemma unique_apply_op: "unique_conn c \<Longrightarrow> unique_conn (apply_op c op)"
  by (cases op)
     (simp_all add: unique_saveCart unique_addOrUpdateCartItem unique_updateCartItemQuantity
        unique_removeCartItem unique_clearCart)

lemma unique_run_ops: "unique_conn c \<Longrightarrow> unique_conn (run_ops c ops)"
  unfolding run_ops_def
  by (induction ops arbitrary: c) (simp_all add: unique_apply_op)

lemma unique_empty_db: "unique_conn empty_db"
  by (simp add: unique_conn_def unique_lines_def empty_db_def)

lemma at_most_one_line:
  assumes "unique_lines t"
  shows "length (filter (same_line u p) t) \<le> 1"
proof -
  have "length (filter (same_line u p) t) = length (filter (\<lambda>k. k = (u, p)) (map line_key t))"
    by (simp add: filter_map comp_def same_line_eq)
  also have "\<dots> = card ({k. k = (u, p)} \<inter> set (map line_key t))"
    using assms by (simp only: unique_lines_def distinct_length_filter)
  also have "\<dots> \<le> card {(u, p)}"
    by (intro card_mono) auto
  finally show ?thesis by simp
qed

lemma upsert_line_exists:
  assumes "sql_upsert b t = Inr t'"
  shows "list_ex (same_line (b_user b) (integer_affinity (b_product b))) t'"
proof -
  let ?u = "b_user b" and ?p = "integer_affinity (b_product b)"
  from assms obtain pr where nn: "?p \<noteq> SNull" and pr: "b_price b = Some pr"
    by (auto simp: sql_upsert_def split: if_splits option.splits)
  let ?f = "\<lambda>r. if same_line ?u ?p r
                 then r\<lparr>quantity := quantity r + b_quantity b, title := b_title b,
                        price := pr, image := b_image b\<rparr>
                 else r"
  show ?thesis
  proof (cases "list_ex (same_line ?u ?p) t")
    case True
    then obtain r where r: "r \<in> set t" "same_line ?u ?p r"
      by (auto simp: list_ex_iff)
    from True assms have t': "t' = map ?f t"
      by (simp add: sql_upsert_ok[OF nn pr])
    have "?f r \<in> set t'" using r(1) unfolding t' by (rule imageI[of r "set t" ?f, folded set_map])
    moreover have "same_line ?u ?p (?f r)" using r(2) by (simp add: same_line_def)
    ultimately show ?thesis unfolding list_ex_iff by blast
  next
    case False
    with assms have "t' = t @ [new_row b pr]"
      by (simp add: sql_upsert_ok[OF nn pr])
    then show ?thesis by (simp add: new_row_def same_line_def)
  qed
qed

lemma accepted_upsert_one_line:
  assumes "unique_conn c" and "upsert_for u p op"
  shows "length (filter (same_line u p) (view (apply_op c op))) = 1"
proof -
  from assms(2) obtain userId mail item where op: "op = Upsert userId mail item"
    by (cases op) auto
  from assms(2) op have uid: "positive_arg userId = Some u"
    and pid: "integer_affinity (sql_bind (item_id item)) = p"
    and acc: "upsert_accepts userId mail item" by auto
  from acc obtain em ti im pr where a: "checked_email mail = Some em" "truthy (item_id item)"
    "trim_or_empty (item_title item) = Some ti" "trim_or_empty (item_image item) = Some im"
    "coerce_price (item_price item) = Some pr"
    by (auto simp: upsert_accepts_def)
  let ?b = "\<lparr>b_user = u, b_product = sql_bind (item_id item), b_email = trim em,
             b_title = ti, b_price = Some pr, b_image = im,
             b_quantity = coerce_quantity (item_quantity item)\<rparr>"
  have nn: "integer_affinity (b_product ?b) \<noteq> SNull" using a(2) by (simp add: truthy_not_null)
  obtain t' where up: "sql_upsert ?b (view c) = Inr t'"
    using sql_upsert_ok[OF nn, of pr "view c"] by simp
  have v: "view (apply_op c op) = t'"
    by (simp add: op addOrUpdate_accepted[OF uid a] up view_put_view)
  have "list_ex (same_line u p) t'"
    using upsert_line_exists[OF up] pid by simp
  then have "length (filter (same_line u p) (view (apply_op c op))) \<noteq> 0"
    by (auto simp: v list_ex_iff filter_empty_conv)
  moreover have "length (filter (same_line u p) (view (apply_op c op))) \<le> 1"
    by (intro at_most_one_line unique_view unique_apply_op assms(1))
  ultimately show ?thesis by linarith
qed

text \<open>
  Claim C2. Uniqueness: after any sequence of calls of \<^verbatim>\<open>addOrUpdateCartItem\<close>,
  \<^verbatim>\<open>saveCart\<close>, \<^verbatim>\<open>updateCartItemQuantity\<close>, \<^verbatim>\<open>removeCartItem\<close> and
  \<^verbatim>\<open>clearCart\<close>, with any arguments, on a connection that starts with an empty table,
  the table holds at most one row for every user and product; and after a non-empty
  sequence of accepted upserts that all name the same user and product it holds exactly
  one row for that pair.
\<close>

theorem cart_lines_unique:
  "length (filter (same_line u p) (view (run_ops empty_db ops))) \<le> 1 \<and>
   (ops \<noteq> [] \<and> list_all (upsert_for u p) ops \<longrightarrow>
      length (filter (same_line u p) (view (run_ops empty_db ops))) = 1)"
proof
  show "length (filter (same_line u p) (view (run_ops empty_db ops))) \<le> 1"
    by (intro at_most_one_line unique_view unique_run_ops unique_empty_db)
  show "ops \<noteq> [] \<and> list_all (upsert_for u p) ops \<longrightarrow>
      length (filter (same_line u p) (view (run_ops empty_db ops))) = 1"
  proof
    assume a: "ops \<noteq> [] \<and> list_all (upsert_for u p) ops"
    then obtain pre op where ops: "ops = pre @ [op]"
      by (metis rev_exhaust)
    with a have "upsert_for u p op" by simp
    moreover have "unique_conn (run_ops empty_db pre)"
      by (intro unique_run_ops unique_empty_db)
    ultimately show "length (filter (same_line u p) (view (run_ops empty_db ops))) = 1"
      by (simp add: ops run_ops_def accepted_upsert_one_line)
  qed
qed

text \<open>Witness for C2: user 7 adds product 42 twice.\<close>

theorem cart_lines_unique_witness:
  "[Upsert (JNum 7) (JStr ''ann@example.com'') mug,
    Upsert (JNum 7) (JStr ''ann@example.com'') big_mug] \<noteq> []
   \<and> list_all (upsert_for 7 (SInt 42))
        [Upsert (JNum 7) (JStr ''ann@example.com'') mug,
         Upsert (JNum 7) (JStr ''ann@example.com'') big_mug]
   \<and> length (filter (same_line 7 (SInt 42))
        (view (run_ops empty_db [Upsert (JNum 7) (JStr ''ann@example.com'') mug,
                                 Upsert (JNum 7) (JStr ''ann@example.com'') big_mug]))) = 1"
proof -
  have h: "list_all (upsert_for 7 (SInt 42))
        [Upsert (JNum 7) (JStr ''ann@example.com'') mug,
         Upsert (JNum 7) (JStr ''ann@example.com'') big_mug]"
    by (simp add: upsert_accepts_def js_eval mug_def big_mug_def)
  from cart_lines_unique[of 7 "SInt 42" "[Upsert (JNum 7) (JStr ''ann@example.com'') mug,
         Upsert (JNum 7) (JStr ''ann@example.com'') big_mug]"] h
  show ?thesis by simp
qed

text \<open>The two upserts leave the one line with the sum of the quantities.\<close>

lemma two_upserts_one_line:
  "view (run_ops empty_db [Upsert (JNum 7) (JStr ''ann@example.com'') mug,
                           Upsert (JNum 7) (JStr ''ann@example.com'') big_mug])
     = [mug_row\<lparr>quantity := 5, title := ''Big mug'', price := 1299, image := []\<rparr>]"
  by (simp add: run_ops_def addOrUpdateCartItem_def sql_eval js_eval empty_db_def mug_def
        big_mug_def mug_row_def)

section \<open>Upsert adds quantities and overwrites the description\<close>




section \<open>Setting a quantity\<close>

lemma positive_arg_rejects:
  assumes "q = JUndefined \<or> q = JNull \<or> q = JNaN \<or> q = JBool False
     \<or> (\<exists>n. q = JNum n \<and> n \<le> 0)
     \<or> (\<exists>s. q = JStr s \<and> (parseInt q = JNaN \<or> (\<exists>n. parseInt q = JNum n \<and> n \<le> 0)))"
  shows "positive_arg q = None"
  using assms by (auto simp: positive_arg_def isNaN_def js_le_def)

text \<open>
  Claim C4, amended. For every user, product and quantity value that is
  \<^verbatim>\<open>undefined\<close>, \<^verbatim>\<open>null\<close>, NaN, \<^verbatim>\<open>false\<close>, a number that is not positive, or a
  string that \<^verbatim>\<open>parseInt\<close> reads as NaN or as a number that is not positive,
  \<^verbatim>\<open>updateCartItemQuantity\<close> fails with a validation error (\<^verbatim>\<open>Quantity must be a
  positive number\<close> when the two ids are valid) and leaves the connection, hence every
  stored quantity, as it was. For a positive integer and valid ids it sets the quantity of
  the matching line to exactly that integer, changes no other line and reports whether a
  line matched.
\<close>

theorem setQuantity_floor:
  "((q = JUndefined \<or> q = JNull \<or> q = JNaN \<or> q = JBool False \<or> (\<exists>n. q = JNum n \<and> n \<le> 0)
       \<or> (\<exists>s. q = JStr s \<and> (parseInt q = JNaN \<or> (\<exists>n. parseInt q = JNum n \<and> n \<le> 0))))
      \<longrightarrow> (\<exists>msg. updateCartItemQuantity c userId productId q = (Err msg, c))
          \<and> (positive_arg userId \<noteq> None \<and> positive_arg productId \<noteq> None \<longrightarrow>
               updateCartItemQuantity c userId productId q
                 = (Err ''Quantity must be a positive number'', c)))
   \<and> (positive_arg userId = Some u \<and> positive_arg productId = Some p \<and> q = JNum n \<and> 0 < n
      \<longrightarrow> updateCartItemQuantity c userId productId q =
            (Ok (list_ex (same_line u (SInt p)) (view c)),
             put_view (map (\<lambda>r. if same_line u (SInt p) r then r\<lparr>quantity := n\<rparr> else r)
                         (view c)) c))"
proof (intro conjI impI)
  assume a: "q = JUndefined \<or> q = JNull \<or> q = JNaN \<or> q = JBool False
       \<or> (\<exists>n. q = JNum n \<and> n \<le> 0)
       \<or> (\<exists>s. q = JStr s \<and> (parseInt q = JNaN \<or> (\<exists>n. parseInt q = JNum n \<and> n \<le> 0)))"
  have r: "positive_arg q = None" using a by (rule positive_arg_rejects)
  show "\<exists>msg. updateCartItemQuantity c userId productId q = (Err msg, c)"
    using r by (simp add: updateCartItemQuantity_def split: option.splits)
  show "updateCartItemQuantity c userId productId q
          = (Err ''Quantity must be a positive number'', c)"
    if "positive_arg userId \<noteq> None \<and> positive_arg productId \<noteq> None"
    using r that by (auto simp: updateCartItemQuantity_def)
next
  assume "positive_arg userId = Some u \<and> positive_arg productId = Some p \<and> q = JNum n \<and> 0 < n"
  then show "updateCartItemQuantity c userId productId q =
            (Ok (list_ex (same_line u (SInt p)) (view c)),
             put_view (map (\<lambda>r. if same_line u (SInt p) r then r\<lparr>quantity := n\<rparr> else r)
                         (view c)) c)"
    by (simp add: updateCartItemQuantity_def positive_arg_number changes_line_positive
          sql_update_quantity_def)
qed

text \<open>Witness for C4: quantity 0 and the string \<^verbatim>\<open>"-3"\<close> are refused, quantity 9
  replaces the stored 2.\<close>

theorem setQuantity_floor_witness:
  "updateCartItemQuantity shop (JNum 7) (JNum 42) (JNum 0)
     = (Err ''Quantity must be a positive number'', shop)
   \<and> updateCartItemQuantity shop (JNum 7) (JNum 42) (JStr ''-3'')
     = (Err ''Quantity must be a positive number'', shop)
   \<and> positive_arg (JNum 7) = Some 7 \<and> positive_arg (JNum 42) = Some 42 \<and> (0::int) < 9
   \<and> updateCartItemQuantity shop (JNum 7) (JNum 42) (JNum 9)
     = (Ok True, \<lparr>committed = [mug_row\<lparr>quantity := 9\<rparr>, pen_row], pending = None\<rparr>)"
proof -
  have u: "positive_arg (JNum 7) = Some 7" and p: "positive_arg (JNum 42) = Some 42"
    by (simp_all add: js_eval)
  have s: "parseInt (JStr ''-3'') = JNum (- 3)" by (simp add: js_eval)
  have "updateCartItemQuantity shop (JNum 7) (JNum 42) (JNum 0)
     = (Err ''Quantity must be a positive number'', shop)"
    using setQuantity_floor[of "JNum 0" shop "JNum 7" "JNum 42"] u p by simp
  moreover have "updateCartItemQuantity shop (JNum 7) (JNum 42) (JStr ''-3'')
     = (Err ''Quantity must be a positive number'', shop)"
    using setQuantity_floor[of "JStr ''-3''" shop "JNum 7" "JNum 42"] u p s by simp
  moreover have "updateCartItemQuantity shop (JNum 7) (JNum 42) (JNum 9)
     = (Ok True, \<lparr>committed = [mug_row\<lparr>quantity := 9\<rparr>, pen_row], pending = None\<rparr>)"
    using setQuantity_floor[of "JNum 9" shop "JNum 7" "JNum 42" 7 42 9] u p
    by (simp add: sql_eval shop_def mug_row_def pen_row_def)
  ultimately show ?thesis using u p by simp
qed

text \<open>Counterexample to C4 as stated: the quantity \<^verbatim>\<open>"5abc"\<close> is not numeric
  (\<^verbatim>\<open>isNaN("5abc")\<close> holds), yet \<^verbatim>\<open>parseInt\<close> reads it as 5, the call succeeds and the
  stored quantity changes from 2 to 5.\<close>

theorem setQuantity_accepts_leading_numeral:
  "isNaN (JStr ''5abc'')
   \<and> updateCartItemQuantity shop (JNum 7) (JNum 42) (JStr ''5abc'')
     = (Ok True, \<lparr>committed = [mug_row\<lparr>quantity := 5\<rparr>, pen_row], pending = None\<rparr>)
   \<and> quantity mug_row = 2"
  by (simp add: updateCartItemQuantity_def sql_eval js_eval shop_def mug_row_def pen_row_def)

section \<open>What the routes check before they call db.js\<close>

text \<open>
  Claim C5, amended. For every request of an authenticated user (a truthy user id in
  the token): a set-quantity or remove-line request whose product id parameter
  \<^verbatim>\<open>parseInt\<close> reads as NaN or as 0 is answered with status 400 and
  \<^verbatim>\<open>Invalid product ID\<close>, and a set-quantity request whose quantity \<^verbatim>\<open>parseInt\<close>
  reads as NaN or as a number below 1 is answered with status 400, in both cases without
  any call of db.js, the connection being returned as it was; an upsert whose payload has
  no product identifier (or a falsy one) is answered with an error response and leaves the
  connection as it was.
\<close>

theorem validation_before_storage:
  assumes "truthy (jwt_id usr)"
  shows "(parseInt (JStr param) = JNaN \<or> parseInt (JStr param) = JNum 0 \<longrightarrow>
            put_cart c usr param q = (Res 400 (Failure ''Invalid product ID'' None None), c)
            \<and> delete_cart_item c usr param
                = (Res 400 (Failure ''Invalid product ID'' None None), c))
     \<and> (parseInt q = JNaN \<or> (\<exists>n. parseInt q = JNum n \<and> n < 1) \<longrightarrow>
            (\<exists>msg. put_cart c usr param q = (Res 400 (Failure msg None None), c)))
     \<and> (\<not> truthy (body_productId b) \<longrightarrow>
            (\<exists>s e d. post_cart c usr b = (Res s (Failure e None d), c) \<and> 400 \<le> s))"
proof (intro conjI impI)
  assume "parseInt (JStr param) = JNaN \<or> parseInt (JStr param) = JNum 0"
  then show "put_cart c usr param q = (Res 400 (Failure ''Invalid product ID'' None None), c)"
    and "delete_cart_item c usr param = (Res 400 (Failure ''Invalid product ID'' None None), c)"
    using assms by (auto simp: put_cart_def delete_cart_item_def isNaN_def)
next
  assume "parseInt q = JNaN \<or> (\<exists>n. parseInt q = JNum n \<and> n < 1)"
  then show "\<exists>msg. put_cart c usr param q = (Res 400 (Failure msg None None), c)"
    using assms by (auto simp: put_cart_def isNaN_def js_lt_def Let_def)
next
  assume "\<not> truthy (body_productId b)"
  then show "\<exists>s e d. post_cart c usr b = (Res s (Failure e None d), c) \<and> 400 \<le> s"
    by (auto simp: post_cart_def addOrUpdateCartItem_def split: option.splits)
qed

text \<open>Witness for C5: the parameter \<^verbatim>\<open>abc\<close>, the quantity \<^verbatim>\<open>"0"\<close> and a body
  without \<^verbatim>\<open>productId\<close>.\<close>

theorem validation_before_storage_witness:
  "truthy (jwt_id ann) \<and> parseInt (JStr ''abc'') = JNaN \<and> parseInt (JStr ''0'') = JNum 0
   \<and> \<not> truthy (body_productId no_product_body)
   \<and> put_cart shop ann ''abc'' (JNum 3)
       = (Res 400 (Failure ''Invalid product ID'' None None), shop)
   \<and> delete_cart_item shop ann ''abc''
       = (Res 400 (Failure ''Invalid product ID'' None None), shop)
   \<and> put_cart shop ann ''42'' (JStr ''0'')
       = (Res 400 (Failure ''Invalid quantity'' None None), shop)
   \<and> snd (post_cart shop ann no_product_body) = shop"
proof -
  have a: "truthy (jwt_id ann)" by (simp add: ann_def)
  have n: "parseInt (JStr ''abc'') = JNaN" and z: "parseInt (JStr ''0'') = JNum 0"
    by (simp_all add: js_eval)
  have b: "\<not> truthy (body_productId no_product_body)" by (simp add: no_product_body_def)
  note v = validation_before_storage[OF a]
  have 1: "put_cart shop ann ''abc'' (JNum 3)
       = (Res 400 (Failure ''Invalid product ID'' None None), shop)"
    and 2: "delete_cart_item shop ann ''abc''
       = (Res 400 (Failure ''Invalid product ID'' None None), shop)"
    using v[of "''abc''" shop "JNum 3", THEN conjunct1] n by simp_all
  have "\<exists>msg. put_cart shop ann ''42'' (JStr ''0'') = (Res 400 (Failure msg None None), shop)"
    using v[of "''42''" shop "JStr ''0''", THEN conjunct2, THEN conjunct1] z by simp
  then have 3: "put_cart shop ann ''42'' (JStr ''0'')
       = (Res 400 (Failure ''Invalid quantity'' None None), shop)"
    by (auto simp: put_cart_def js_eval ann_def)
  have "\<exists>s e d. post_cart shop ann no_product_body = (Res s (Failure e None d), shop) \<and> 400 \<le> s"
    using v[of _ shop _ no_product_body, THEN conjunct2, THEN conjunct2] b by simp
  then have 4: "snd (post_cart shop ann no_product_body) = shop"
    by auto
  from a n z b 1 2 3 4 show ?thesis by simp
qed

text \<open>Counterexample to C5 as stated: a POST without \<^verbatim>\<open>productId\<close> is passed to
  \<^verbatim>\<open>addOrUpdateCartItem\<close>, whose own test refuses it, and the route answers with the
  status 500 of a storage failure, not with a validation error; and the product id
  parameter \<^verbatim>\<open>42abc\<close>, which is not numeric, is read as 42 and the quantity of that line
  is changed.\<close>

theorem malformed_input_reaches_store:
  "post_cart shop ann no_product_body
     = (Res 500 (Failure ''Failed to update cart'' None (Some ''Item must have an id'')), shop)
   \<and> isNaN (JStr ''42abc'')
   \<and> put_cart shop ann ''42abc'' (JNum 9)
     = (Res 200 (Items [line_of (mug_row\<lparr>quantity := 9\<rparr>)] None),
        \<lparr>committed = [mug_row\<lparr>quantity := 9\<rparr>, pen_row], pending = None\<rparr>)"
  by (simp add: post_cart_def put_cart_def addOrUpdateCartItem_def updateCartItemQuantity_def
        getCartByUserId_def sql_eval js_eval shop_def ann_def mug_row_def pen_row_def
        no_product_body_def)

text \<open>A POST with the product id \<^verbatim>\<open>"abc"\<close> is not refused at all: the row is
  inserted.\<close>

lemma post_cart_stores_text_id:
  "post_cart shop ann abc_body
     = (Res 200 (Items [line_of mug_row, line_of abc_row] None),
        \<lparr>committed = [mug_row, pen_row, abc_row], pending = None\<rparr>)"
  by (simp add: post_cart_def addOrUpdateCartItem_def getCartByUserId_def sql_eval js_eval
        shop_def ann_def mug_row_def pen_row_def abc_row_def abc_body_def affinity_abc
        del: integer_affinity.simps(1))

section \<open>A successful mutation answers with the whole cart\<close>

lemma getCart_stored_lines:
  "getCartByUserId c userId = Ok xs \<Longrightarrow> xs = stored_lines c userId"
  by (auto simp: getCartByUserId_def stored_lines_def split: option.splits)

text \<open>
  Claim C6. Snapshot on mutation: whenever \<^verbatim>\<open>POST /api/cart\<close>,
  \<^verbatim>\<open>PUT /api/cart/:productId\<close> or \<^verbatim>\<open>DELETE /api/cart/:productId\<close> answers with
  status 200, the body is \<^verbatim>\<open>{items}\<close> with every line that the connection holds for
  the user after the mutation (the state the db.js function left), not only the line that
  was touched.
\<close>

theorem mutation_returns_snapshot:
  "(post_cart c usr b = (Res 200 bd, c') \<longrightarrow>
      bd = Items (stored_lines c' (jwt_id usr)) None
      \<and> c' = snd (addOrUpdateCartItem c (jwt_id usr) (jwt_email usr)
                 \<lparr>item_id = body_productId b, item_title = body_title b,
                  item_price = body_price b, item_image = body_image b,
                  item_quantity = js_or (body_quantity b) (JNum 1)\<rparr>))
   \<and> (put_cart c usr param q = (Res 200 bd, c') \<longrightarrow>
      bd = Items (stored_lines c' (jwt_id usr)) None
      \<and> c' = snd (updateCartItemQuantity c (jwt_id usr) (parseInt (JStr param)) (parseInt q)))
   \<and> (delete_cart_item c usr param = (Res 200 bd, c') \<longrightarrow>
      bd = Items (stored_lines c' (jwt_id usr)) None
      \<and> c' = snd (removeCartItem c (jwt_id usr) (parseInt (JStr param))))"
proof (intro conjI impI)
  assume a: "post_cart c usr b = (Res 200 bd, c')"
  then show "bd = Items (stored_lines c' (jwt_id usr)) None"
    by (auto simp: post_cart_def split: prod.splits outcome.splits dest: getCart_stored_lines)
  from a show "c' = snd (addOrUpdateCartItem c (jwt_id usr) (jwt_email usr)
                 \<lparr>item_id = body_productId b, item_title = body_title b,
                  item_price = body_price b, item_image = body_image b,
                  item_quantity = js_or (body_quantity b) (JNum 1)\<rparr>)"
    by (auto simp: post_cart_def split: prod.splits outcome.splits)
next
  assume a: "put_cart c usr param q = (Res 200 bd, c')"
  then show "bd = Items (stored_lines c' (jwt_id usr)) None"
    by (auto simp: put_cart_def Let_def split: prod.splits outcome.splits if_splits
             dest: getCart_stored_lines)
  from a show
    "c' = snd (updateCartItemQuantity c (jwt_id usr) (parseInt (JStr param)) (parseInt q))"
    by (auto simp: put_cart_def Let_def split: prod.splits outcome.splits if_splits)
next
  assume a: "delete_cart_item c usr param = (Res 200 bd, c')"
  then show "bd = Items (stored_lines c' (jwt_id usr)) None"
    by (auto simp: delete_cart_item_def Let_def split: prod.splits outcome.splits if_splits
             dest: getCart_stored_lines)
  from a show "c' = snd (removeCartItem c (jwt_id usr) (parseInt (JStr param)))"
    by (auto simp: delete_cart_item_def Let_def split: prod.splits outcome.splits if_splits)
qed

text \<open>Witness for C6: user 7 adds a second product, sets the quantity of the mug, removes
  the mug; each answer is status 200 with all of the user's lines.\<close>

theorem mutation_returns_snapshot_witness:
  "post_cart shop ann abc_body
     = (Res 200 (Items [line_of mug_row, line_of abc_row] None),
        \<lparr>committed = [mug_row, pen_row, abc_row], pending = None\<rparr>)
   \<and> put_cart shop ann ''42'' (JNum 9)
     = (Res 200 (Items [line_of (mug_row\<lparr>quantity := 9\<rparr>)] None),
        \<lparr>committed = [mug_row\<lparr>quantity := 9\<rparr>, pen_row], pending = None\<rparr>)
   \<and> delete_cart_item shop ann ''42''
     = (Res 200 (Items [] None), \<lparr>committed = [pen_row], pending = None\<rparr>)
   \<and> stored_lines \<lparr>committed = [mug_row, pen_row, abc_row], pending = None\<rparr> (jwt_id ann)
     = [line_of mug_row, line_of abc_row]
   \<and> stored_lines \<lparr>committed = [mug_row\<lparr>quantity := 9\<rparr>, pen_row], pending = None\<rparr> (jwt_id ann)
     = [line_of (mug_row\<lparr>quantity := 9\<rparr>)]
   \<and> stored_lines \<lparr>committed = [pen_row], pending = None\<rparr> (jwt_id ann) = []"
proof -
  have h1: "post_cart shop ann abc_body
     = (Res 200 (Items [line_of mug_row, line_of abc_row] None),
        \<lparr>committed = [mug_row, pen_row, abc_row], pending = None\<rparr>)"
    by (simp add: post_cart_def addOrUpdateCartItem_def getCartByUserId_def sql_eval js_eval
          shop_def ann_def mug_row_def pen_row_def abc_row_def abc_body_def affinity_abc
          del: integer_affinity.simps(1))
  have h2: "put_cart shop ann ''42'' (JNum 9)
     = (Res 200 (Items [line_of (mug_row\<lparr>quantity := 9\<rparr>)] None),
        \<lparr>committed = [mug_row\<lparr>quantity := 9\<rparr>, pen_row], pending = None\<rparr>)"
    by (simp add: put_cart_def updateCartItemQuantity_def getCartByUserId_def sql_eval js_eval
          shop_def ann_def mug_row_def pen_row_def)
  have h3: "delete_cart_item shop ann ''42''
     = (Res 200 (Items [] None), \<lparr>committed = [pen_row], pending = None\<rparr>)"
    by (simp add: delete_cart_item_def removeCartItem_def getCartByUserId_def sql_eval js_eval
          shop_def ann_def mug_row_def pen_row_def)
  note snap = mutation_returns_snapshot[of shop ann abc_body _ _ "''42''" "JNum 9"]
  have s1: "stored_lines \<lparr>committed = [mug_row, pen_row, abc_row], pending = None\<rparr> (jwt_id ann)
     = [line_of mug_row, line_of abc_row]"
    using snap[THEN conjunct1, THEN mp, OF h1, THEN conjunct1] by simp
  have s2: "stored_lines \<lparr>committed = [mug_row\<lparr>quantity := 9\<rparr>, pen_row], pending = None\<rparr>
              (jwt_id ann) = [line_of (mug_row\<lparr>quantity := 9\<rparr>)]"
    using snap[THEN conjunct2, THEN conjunct1, THEN mp, OF h2, THEN conjunct1] by simp
  have s3: "stored_lines \<lparr>committed = [pen_row], pending = None\<rparr> (jwt_id ann) = []"
    using snap[THEN conjunct2, THEN conjunct2, THEN mp, OF h3, THEN conjunct1] by simp
  from h1 h2 h3 s1 s2 s3 show ?thesis by simp
qed

section \<open>Clearing a cart\<close>

text \<open>
  Claim C7. Clear is total and idempotent at the API: for every user whose token carries
  a valid id, \<^verbatim>\<open>DELETE /api/cart\<close> answers with status 200 and the empty list of items,
  whatever the cart held; a second clear right after it gives the same answer and leaves
  the connection as the first one left it, although \<^verbatim>\<open>clearCart\<close> then reports
  \<^verbatim>\<open>false\<close> (no row deleted).
\<close>

theorem clear_always_succeeds:
  assumes "positive_arg (jwt_id usr) = Some u"
  shows "delete_cart c usr = (Res 200 (Items [] None), put_view (sql_delete_user u (view c)) c)
     \<and> delete_cart (snd (delete_cart c usr)) usr
         = (Res 200 (Items [] None), snd (delete_cart c usr))
     \<and> fst (clearCart (snd (delete_cart c usr)) (jwt_id usr)) = Ok False"
proof -
  let ?c1 = "put_view (sql_delete_user u (view c)) c"
  have e: "filter (\<lambda>r. user_id r = u) (sql_delete_user u t) = []" for t
    by (simp add: sql_delete_user_def filter_empty_conv)
  have i: "sql_delete_user u (sql_delete_user u t) = sql_delete_user u t" for t
    by (simp add: sql_delete_user_def)
  have p: "put_view t (put_view t c) = put_view t c" for t
    by (simp add: put_view_def split: option.splits)
  have 1: "delete_cart c usr = (Res 200 (Items [] None), ?c1)"
    using assms by (simp add: delete_cart_def clearCart_def getCartByUserId_def view_put_view e)
  have 2: "delete_cart ?c1 usr = (Res 200 (Items [] None), ?c1)"
    using assms
    by (simp add: delete_cart_def clearCart_def getCartByUserId_def view_put_view e i p)
  have 3: "fst (clearCart ?c1 (jwt_id usr)) = Ok False"
    using assms by (simp add: clearCart_def view_put_view changes_user_def e)
  from 1 2 3 show ?thesis by simp
qed

text \<open>Witness for C7: user 7 clears an empty table, and clears the sample table.\<close>

theorem clear_always_succeeds_witness:
  "positive_arg (jwt_id ann) = Some 7
   \<and> delete_cart empty_db ann = (Res 200 (Items [] None), empty_db)
   \<and> delete_cart shop ann = (Res 200 (Items [] None), \<lparr>committed = [pen_row], pending = None\<rparr>)"
proof -
  have h: "positive_arg (jwt_id ann) = Some 7" by (simp add: ann_def js_eval)
  from clear_always_succeeds[OF h, of empty_db] clear_always_succeeds[OF h, of shop] h
  show ?thesis
    by (simp add: sql_eval empty_db_def shop_def mug_row_def pen_row_def)
qed

section \<open>Rollback on the client\<close>

text \<open>\<^verbatim>\<open>updateQuantity\<close> and \<^verbatim>\<open>removeItem\<close> put back the cart they started from
  when the request fails.\<close>

lemma updateQuantity_rolls_back:
  assumes "r = NoResponse \<or> (\<exists>s b. r = Got (Res s b) \<and> \<not> resolved s)"
  shows "cartItems (updateQuantity st True productId delta r) = cartItems st"
  using assms
  by (auto simp: updateQuantity_def on_failure_def handleUnauthorized_def Let_def
           split: option.splits)

lemma removeItem_rolls_back:
  assumes "r = NoResponse \<or> (\<exists>s b. r = Got (Res s b) \<and> \<not> resolved s)"
  shows "cartItems (removeItem st True productId r) = cartItems st"
  using assms
  by (auto simp: removeItem_def on_failure_def handleUnauthorized_def Let_def)

text \<open>
  Claim C8 (the code departs from it). Client rollback exactness asks that a failed add
  leaves the visible cart as it was before the optimistic change. \<^verbatim>\<open>addToCart\<close> with
  a product that is already in the cart (quantity 2) and a request that fails, with
  status 500 or with no response, ends with quantity 3 on the page and in
  \<^verbatim>\<open>localStorage\<close>: the increment was made on the object that the saved array still
  holds, so putting the saved array back restores nothing.
\<close>

theorem addToCart_failure_keeps_increment:
  "shown_cart products_open = [mug_obj]
   \<and> shown_cart (addToCart products_open True True mug_product (Fetched 500 None))
       = [mug_obj\<lparr>o_quantity := 3\<rparr>]
   \<and> localStorage (addToCart products_open True True mug_product (Fetched 500 None))
       = [mug_obj\<lparr>o_quantity := 3\<rparr>]
   \<and> shown_cart (addToCart products_open True True mug_product (FetchFailed ''Failed to fetch''))
       = [mug_obj\<lparr>o_quantity := 3\<rparr>]"
  by (simp add: addToCart_def shown_cart_def contents_def existing_item_def resolved_def
        products_open_def mug_obj_def mug_product_def List.map_filter_def)

text \<open>Witness for C8: the cart shown after the failed add differs from the cart shown
  before it.\<close>

theorem addToCart_failure_keeps_increment_witness:
  "shown_cart (addToCart products_open True True mug_product (Fetched 500 None))
     \<noteq> shown_cart products_open"
  using addToCart_failure_keeps_increment by (simp add: mug_obj_def)

section \<open>Authorization failures\<close>

text \<open>
  Claim C9 (the code departs from it). A request with an invalid or expired token should
  end with the client sending the user to log in again. \<^verbatim>\<open>authenticateToken\<close> answers
  a token that does not verify with status 403 (status 401 is kept for a missing token);
  the interceptor passes a 403 on, and \<^verbatim>\<open>updateQuantity\<close> sends the user to
  \<^verbatim>\<open>/login\<close> on status 401 only: on the 403 it rolls back, shows the error text and
  stays on the cart page.
\<close>

theorem expired_token_not_routed_to_login:
  "authenticateToken sample_verify (Some ''Bearer stale-token'') = Rejected expired_reply
   \<and> authenticateToken sample_verify None
       = Rejected (Res 401 (Failure ''Authorization token required'' (Some ''MISSING_TOKEN'') None))
   \<and> interceptor refreshed (Got expired_reply) again = Got expired_reply
   \<and> updateQuantity cart_open True (SInt 42) 1 (Got expired_reply)
       = cart_open\<lparr>toasts := [''Invalid or expired token'']\<rparr>
   \<and> route (updateQuantity cart_open True (SInt 42) 1 (Got expired_reply)) = ''/cart''
   \<and> route (updateQuantity cart_open True (SInt 42) 1
        (Got (Res 401 (Failure ''Authorization token required'' (Some ''MISSING_TOKEN'') None))))
       = ''/login''"
  by (simp add: authenticateToken_def bearer_token_def sample_verify_def expired_reply_def
        interceptor_def updateQuantity_def on_failure_def handleUnauthorized_def error_text_def
        resolved_def cart_open_def)

text \<open>Witness for C9: also when the token refresh has succeeded, the 403 leaves the user
  on the cart page.\<close>

theorem expired_token_not_routed_to_login_witness:
  "route (updateQuantity cart_open True (SInt 42) 1
            (interceptor True (Got expired_reply) NoResponse)) \<noteq> ''/login''"
  using expired_token_not_routed_to_login[of True NoResponse] by (simp add: cart_open_def)

section \<open>A call for one user leaves the other users' lines alone\<close>

lemma frame_map:
  assumes "\<And>r. user_id (f r) = user_id r" and "\<And>r. user_id r = u' \<Longrightarrow> f r = r"
  shows "lines_of_user u' (map f t) = lines_of_user u' t"
  using assms by (induction t) (auto simp: lines_of_user_def)

lemma frame_delete_user:
  "u \<noteq> u' \<Longrightarrow> lines_of_user u' (sql_delete_user u t) = lines_of_user u' t"
  by (induction t) (auto simp: lines_of_user_def sql_delete_user_def)

lemma frame_delete_line:
  "u \<noteq> u' \<Longrightarrow> lines_of_user u' (sql_delete_line u p t) = lines_of_user u' t"
  by (induction t) (auto simp: lines_of_user_def sql_delete_line_def same_line_def)

lemma frame_update_quantity:
  "u \<noteq> u' \<Longrightarrow> lines_of_user u' (sql_update_quantity q u p t) = lines_of_user u' t"
  unfolding sql_update_quantity_def
  by (rule frame_map) (auto simp: same_line_def)

lemma frame_insert:
  assumes "sql_insert b t = Inr t'" and "b_user b \<noteq> u'"
  shows "lines_of_user u' t' = lines_of_user u' t"
  using assms
  by (auto simp: sql_insert_def lines_of_user_def new_row_def split: if_splits option.splits)

lemma frame_upsert:
  assumes "sql_upsert b t = Inr t'" and "b_user b \<noteq> u'"
  shows "lines_of_user u' t' = lines_of_user u' t"
proof -
  from assms(1) obtain pr where nn: "integer_affinity (b_product b) \<noteq> SNull"
    and pr: "b_price b = Some pr"
    by (auto simp: sql_upsert_def split: if_splits option.splits)
  show ?thesis
  proof (cases "list_ex (same_line (b_user b) (integer_affinity (b_product b))) t")
    case True
    with assms(1) have "t' = map (\<lambda>r. if same_line (b_user b) (integer_affinity (b_product b)) r
                         then r\<lparr>quantity := quantity r + b_quantity b, title := b_title b,
                                price := pr, image := b_image b\<rparr>
                         else r) t"
      by (simp add: sql_upsert_ok[OF nn pr])
    then show ?thesis
      using assms(2) by (simp only:) (rule frame_map, auto simp: same_line_def)
  next
    case False
    with assms(1) have "t' = t @ [new_row b pr]"
      by (simp add: sql_upsert_ok[OF nn pr])
    then show ?thesis using assms(2) by (simp add: lines_of_user_def new_row_def)
  qed
qed

lemma frame_insert_items:
  assumes "u \<noteq> u'"
    and "insert_items u em items h t = Finished h' t' \<or> insert_items u em items h t = Threw m t'"
  shows "lines_of_user u' t' = lines_of_user u' t"
  using assms(2)
proof (induction items arbitrary: h t)
  case Nil
  then show ?case by simp
next
  case (Cons item rest)
  show ?case
  proof (cases "trim_or_empty (item_title item)")
    case None
    with Cons.prems show ?thesis by simp
  next
    case ti: (Some ti)
    show ?thesis
    proof (cases "trim_or_empty (item_image item)")
      case None
      with Cons.prems ti show ?thesis by simp
    next
      case im: (Some im)
      let ?b = "\<lparr>b_user = u, b_product = sql_bind (item_id item), b_email = em, b_title = ti,
                 b_price = coerce_price (item_price item), b_image = im,
                 b_quantity = coerce_quantity (item_quantity item)\<rparr>"
      show ?thesis
      proof (cases "sql_insert ?b t")
        case (Inl e)
        with Cons.prems ti im have
          "insert_items u em rest True t = Finished h' t' \<or> insert_items u em rest True t = Threw m t'"
          by simp
        then show ?thesis by (rule Cons.IH)
      next
        case (Inr t1)
        with Cons.prems ti im have
          "insert_items u em rest h t1 = Finished h' t' \<or> insert_items u em rest h t1 = Threw m t'"
          by simp
        then have "lines_of_user u' t' = lines_of_user u' t1" by (rule Cons.IH)
        also have "\<dots> = lines_of_user u' t"
          using frame_insert[OF Inr] assms(1) by simp
        finally show ?thesis .
      qed
    qed
  qed
qed

lemma frame_saveCart:
  assumes "positive_arg userId \<noteq> Some u'" and "pending c = None"
  shows "lines_of_user u' (view (snd (saveCart c userId mail items))) = lines_of_user u' (view c)"
proof (cases "positive_arg userId")
  case None
  then show ?thesis by (simp add: saveCart_def)
next
  case uid: (Some u)
  with assms(1) have ne: "u \<noteq> u'" by simp
  show ?thesis
  proof (cases "checked_email mail")
    case None
    with uid show ?thesis by (simp add: saveCart_def)
  next
    case em: (Some em)
    show ?thesis
    proof (cases items)
      case None
      with uid em show ?thesis by (simp add: saveCart_def)
    next
      case xs: (Some xs)
      let ?t0 = "sql_delete_user u (committed c)"
      show ?thesis
      proof (cases "insert_items u (trim em) xs False ?t0")
        case (Threw m t)
        then have "lines_of_user u' t = lines_of_user u' ?t0"
          using frame_insert_items[OF ne] by blast
        with uid em xs Threw assms(2) show ?thesis
          by (simp add: saveCart_def sql_begin_def view_def put_view_def frame_delete_user[OF ne])
      next
        case (Finished hasError t)
        then have "lines_of_user u' t = lines_of_user u' ?t0"
          using frame_insert_items[OF ne] by blast
        with uid em xs Finished assms(2) show ?thesis
          by (cases hasError)
             (simp_all add: saveCart_def sql_begin_def sql_commit_def sql_rollback_def view_def
                put_view_def Let_def frame_delete_user[OF ne])
      qed
    qed
  qed
qed

lemma frame_addOrUpdateCartItem:
  assumes "positive_arg userId \<noteq> Some u'"
  shows "lines_of_user u' (view (snd (addOrUpdateCartItem c userId mail item)))
           = lines_of_user u' (view c)"
  using assms
  by (auto simp: addOrUpdateCartItem_def view_put_view split: option.splits sum.splits
           dest!: frame_upsert[where u'=u'])

text \<open>
  Claim C10. Per-user frame property: a call of \<^verbatim>\<open>saveCart\<close>,
  \<^verbatim>\<open>addOrUpdateCartItem\<close>, \<^verbatim>\<open>updateCartItemQuantity\<close>, \<^verbatim>\<open>removeCartItem\<close> or
  \<^verbatim>\<open>clearCart\<close> whose user argument is not the id \<open>u'\<close> (it is the id of another user,
  or it is refused) leaves the lines of user \<open>u'\<close> as they were: the same rows in the same
  order, whatever the other arguments are and whatever the call answers. For
  \<^verbatim>\<open>saveCart\<close> this is for a connection on which no transaction was left open.
\<close>

theorem mutations_leave_other_users:
  assumes "positive_arg userId \<noteq> Some u'"
  shows "(pending c = None \<longrightarrow>
           lines_of_user u' (view (snd (saveCart c userId mail items))) = lines_of_user u' (view c))
     \<and> lines_of_user u' (view (snd (addOrUpdateCartItem c userId mail item)))
         = lines_of_user u' (view c)
     \<and> lines_of_user u' (view (snd (updateCartItemQuantity c userId productId q)))
         = lines_of_user u' (view c)
     \<and> lines_of_user u' (view (snd (removeCartItem c userId productId)))
         = lines_of_user u' (view c)
     \<and> lines_of_user u' (view (snd (clearCart c userId))) = lines_of_user u' (view c)"
proof (intro conjI impI)
  show "lines_of_user u' (view (snd (saveCart c userId mail items))) = lines_of_user u' (view c)"
    if "pending c = None" using frame_saveCart[OF assms that] .
  show "lines_of_user u' (view (snd (addOrUpdateCartItem c userId mail item)))
         = lines_of_user u' (view c)"
    using frame_addOrUpdateCartItem[OF assms] .
  show "lines_of_user u' (view (snd (updateCartItemQuantity c userId productId q)))
         = lines_of_user u' (view c)"
    using assms
    by (auto simp: updateCartItemQuantity_def view_put_view frame_update_quantity
             split: option.splits)
  show "lines_of_user u' (view (snd (removeCartItem c userId productId)))
         = lines_of_user u' (view c)"
    using assms
    by (auto simp: removeCartItem_def view_put_view frame_delete_line split: option.splits)
  show "lines_of_user u' (view (snd (clearCart c userId))) = lines_of_user u' (view c)"
    using assms
    by (auto simp: clearCart_def view_put_view frame_delete_user split: option.splits)
qed

text \<open>Witness for C10: the five calls for user 7 leave the pen of user 8.\<close>

theorem mutations_leave_other_users_witness:
  "positive_arg (JNum 7) \<noteq> Some 8 \<and> pending shop = None
   \<and> lines_of_user 8 (view shop) = [pen_row]
   \<and> lines_of_user 8 (view (snd (saveCart shop (JNum 7) (JStr ''ann@example.com'')
                                    (Some [big_mug])))) = [pen_row]
   \<and> lines_of_user 8 (view (snd (addOrUpdateCartItem shop (JNum 7) (JStr ''ann@example.com'')
                                    big_mug))) = [pen_row]
   \<and> lines_of_user 8 (view (snd (updateCartItemQuantity shop (JNum 7) (JNum 42) (JNum 9))))
       = [pen_row]
   \<and> lines_of_user 8 (view (snd (removeCartItem shop (JNum 7) (JNum 42)))) = [pen_row]
   \<and> lines_of_user 8 (view (snd (clearCart shop (JNum 7)))) = [pen_row]"
proof -
  have h: "positive_arg (JNum 7) \<noteq> Some 8" by (simp add: js_eval)
  have p: "pending shop = None" by (simp add: shop_def)
  have v: "lines_of_user 8 (view shop) = [pen_row]"
    by (simp add: lines_of_user_def view_def shop_def mug_row_def pen_row_def)
  from mutations_leave_other_users[OF h, of shop "JStr ''ann@example.com''" "Some [big_mug]"
      big_mug "JNum 42" "JNum 9"] h p v
  show ?thesis by simp
qed

end
